theory Spec2Isabelle
  imports Main
begin

text \<open>
  A shallow embedding of three modules of iRedAPD 5.9.1, a Postfix policy server:
  the plugin dispatcher \<open>libs/sql/modeler.py\<close> and the plugins
  \<open>ldap_maillist_access_policy\<close> and \<open>reject_sender_login_mismatch\<close>. Functions the
  modules import from elsewhere (the directory, the SQL engine, DNS, HTTP, \<open>libs.utils\<close>,
  the tables of \<open>libs\<close> and \<open>settings\<close>) are parameters.
\<close>

section \<open>Python values shared by the three modules\<close>

text \<open>
  Exceptions are values. \<open>KeyError k\<close> is a missing key \<open>k\<close>, \<open>IndexError\<close> is element 0
  of an empty list, \<open>ValueError\<close> is unpacking one value into two names, \<open>TypeError m\<close>
  carries its message and \<open>AttributeError\<close> is \<open>close\<close> called on \<open>None\<close>. \<open>Raised r\<close> is an
  exception raised by an external collaborator (the directory, the SQL engine, the HTTP
  client); \<open>r\<close> is the text Python prints for it, as \<open>str\<close> and as \<open>repr\<close> alike.
\<close>

datatype py_exn =
  KeyError string | IndexError | ValueError | TypeError string | AttributeError | Raised string

text \<open>
  \<open>repr\<close> of a string without backslashes and control characters: single quotes, or
  double quotes when the string has a single quote and no double quote.
\<close>

definition repr_str :: "string \<Rightarrow> string" where
  "repr_str s =
     (if CHR 0x27 \<in> set s \<and> CHR 0x22 \<notin> set s then [CHR 0x22] @ s @ [CHR 0x22]
      else [CHR 0x27] @ s @ [CHR 0x27])"

text \<open>\<open>str(e)\<close> and \<open>repr(e)\<close>, with the messages of CPython 3.\<close>

definition str_exn :: "py_exn \<Rightarrow> string" where
  "str_exn e =
     (case e of
        KeyError k \<Rightarrow> repr_str k
      | IndexError \<Rightarrow> ''list index out of range''
      | ValueError \<Rightarrow> ''not enough values to unpack (expected 2, got 1)''
      | TypeError m \<Rightarrow> m
      | AttributeError \<Rightarrow>
          [CHR 0x27] @ ''NoneType'' @ [CHR 0x27] @ '' object has no attribute ''
            @ [CHR 0x27] @ ''close'' @ [CHR 0x27]
      | Raised r \<Rightarrow> r)"

definition repr_exn :: "py_exn \<Rightarrow> string" where
  "repr_exn e =
     (case e of
        KeyError k \<Rightarrow> ''KeyError('' @ repr_str k @ '')''
      | IndexError \<Rightarrow> ''IndexError('' @ repr_str (str_exn e) @ '')''
      | ValueError \<Rightarrow> ''ValueError('' @ repr_str (str_exn e) @ '')''
      | TypeError m \<Rightarrow> ''TypeError('' @ repr_str m @ '')''
      | AttributeError \<Rightarrow> ''AttributeError('' @ repr_str (str_exn e) @ '')''
      | Raised r \<Rightarrow> r)"

definition startswith :: "string \<Rightarrow> string \<Rightarrow> bool" where
  "startswith s p = (take (length p) s = p)"

definition endswith :: "string \<Rightarrow> string \<Rightarrow> bool" where
  "endswith s p = (length p \<le> length s \<and> drop (length s - length p) s = p)"

text \<open>\<open>str.upper\<close> and \<open>str.lower\<close>, on the ASCII letters.\<close>

definition upper_char :: "char \<Rightarrow> char" where
  "upper_char c =
     (let n = (of_char c :: nat) in if 97 \<le> n \<and> n \<le> 122 then char_of (n - 32) else c)"

definition upper :: "string \<Rightarrow> string" where
  "upper s = map upper_char s"

definition lower_char :: "char \<Rightarrow> char" where
  "lower_char c =
     (let n = (of_char c :: nat) in if 65 \<le> n \<and> n \<le> 90 then char_of (n + 32) else c)"

definition lower :: "string \<Rightarrow> string" where
  "lower s = map lower_char s"

text \<open>
  The keys of the table \<open>SMTP_ACTIONS\<close> (module \<open>libs\<close>) that the three modules read.
  The table itself is a parameter wherever its strings are needed.
\<close>

datatype action_key =
  A_default | A_reject | A_reject_not_authorized
  | A_reject_sender_login_mismatch | A_reject_forged_sender

section \<open>libs/sql/modeler.py\<close>

type_synonym smtp_session = "(string \<times> string) list"

record plugin =
  plugin_name :: string
  SMTP_PROTOCOL_STATE :: "string list option"

datatype conn_name = Vmail | Amavisd | Iredapd

text \<open>
  \<open>self.conns\<close>: the vmail pool always exists, the other two may be \<open>None\<close>. Whether a
  \<open>connect()\<close> or a \<open>close()\<close> raises is decided by the pool.
\<close>

record conns =
  has_amavisd :: bool
  has_iredapd :: bool
  connect_raises :: "conn_name \<Rightarrow> bool"
  close_raises :: "conn_name \<Rightarrow> bool"

record plugin_kwargs =
  smtp_session_data :: smtp_session
  conn_vmail :: conn_name
  conn_amavisd :: "conn_name option"
  conn_iredapd :: "conn_name option"
  sender :: string
  sender_without_ext :: string
  recipient :: string
  recipient_without_ext :: string
  client_address :: string
  sender_domain :: string
  recipient_domain :: string
  sasl_username :: string
  sasl_username_domain :: string

text \<open>
  What one call leaves behind: the handles checked out and not yet closed, the plugins
  whose \<open>restriction\<close> ran (in order), and the lines written to the logger.
\<close>

record world =
  opened :: "conn_name list"
  applied :: "plugin list"
  logged :: "string list"

definition dict_get :: "('k \<times> 'v) list \<Rightarrow> 'k \<Rightarrow> 'v \<Rightarrow> 'v" where
  "dict_get d k dflt = (case map_of d k of None \<Rightarrow> dflt | Some v \<Rightarrow> v)"

definition target_protocol_state :: "plugin \<Rightarrow> string list" where
  "target_protocol_state p =
     (case SMTP_PROTOCOL_STATE p of None \<Rightarrow> [''RCPT''] | Some t \<Rightarrow> t)"

definition skip_message :: "plugin \<Rightarrow> string \<Rightarrow> string" where
  "skip_message p protocol_state =
     ''Skip plugin: '' @ plugin_name p @ '' (protocol_state != '' @ protocol_state @ '')''"

text \<open>
  The \<open>for plugin in plugins\<close> loop. \<open>Some action\<close> is the early \<open>return action\<close>;
  \<open>None\<close> means the loop ran to its end. \<open>apply_plugin\<close> is \<open>utils.apply_plugin\<close>,
  a parameter.
\<close>

fun run_plugins ::
  "(plugin \<Rightarrow> plugin_kwargs \<Rightarrow> string) \<Rightarrow> string \<Rightarrow> plugin_kwargs \<Rightarrow> plugin list
     \<Rightarrow> world \<Rightarrow> string option \<times> world" where
  "run_plugins apply_plugin protocol_state kw [] w = (None, w)"
| "run_plugins apply_plugin protocol_state kw (p # ps) w =
     (if protocol_state \<notin> set (target_protocol_state p)
      then run_plugins apply_plugin protocol_state kw ps
             (w\<lparr>logged := logged w @ [skip_message p protocol_state]\<rparr>)
      else
        let action = apply_plugin p kw;
            w' = w\<lparr>applied := applied w @ [p]\<rparr>
        in if \<not> startswith action ''DUNNO'' then (Some action, w')
           else run_plugins apply_plugin protocol_state kw ps w')"

definition connect :: "conns \<Rightarrow> conn_name \<Rightarrow> world \<Rightarrow> py_exn + world" where
  "connect cs c w =
     (if connect_raises cs c then Inl (Raised ''connect'')
      else Inr (w\<lparr>opened := opened w @ [c]\<rparr>))"

definition close :: "conns \<Rightarrow> conn_name \<Rightarrow> world \<Rightarrow> py_exn + world" where
  "close cs c w =
     (if close_raises cs c then Inl (Raised ''close'')
      else Inr (w\<lparr>opened := remove1 c (opened w)\<rparr>))"

text \<open>
  The \<open>try: ... except: pass\<close> block after the loop. \<open>conn_iredapd.close()\<close> is not
  guarded: on \<open>None\<close> it raises AttributeError, which the bare \<open>except\<close> swallows.
\<close>

definition close_connections ::
  "conns \<Rightarrow> conn_name option \<Rightarrow> conn_name option \<Rightarrow> world \<Rightarrow> world" where
  "close_connections cs amavisd iredapd w =
     (case close cs Vmail w of
        Inl e \<Rightarrow> w
      | Inr w1 \<Rightarrow>
          (case iredapd of
             None \<Rightarrow> w1
           | Some i \<Rightarrow>
               (case close cs i w1 of
                  Inl e \<Rightarrow> w1
                | Inr w2 \<Rightarrow>
                    (case amavisd of
                       None \<Rightarrow> w2
                     | Some a \<Rightarrow> (case close cs a w2 of Inl e \<Rightarrow> w2 | Inr w3 \<Rightarrow> w3)))))"

text \<open>The three \<open>connect()\<close> calls before the loop, in source order.\<close>

definition acquire ::
  "conns \<Rightarrow> world \<Rightarrow> (py_exn + conn_name option \<times> conn_name option) \<times> world" where
  "acquire cs w =
     (case connect cs Vmail w of
        Inl e \<Rightarrow> (Inl e, w)
      | Inr w1 \<Rightarrow>
          (case (if has_amavisd cs then map_sum id (Pair (Some Amavisd)) (connect cs Amavisd w1)
                 else Inr (None, w1)) of
             Inl e \<Rightarrow> (Inl e, w1)
           | Inr (amavisd, w2) \<Rightarrow>
               (case (if has_iredapd cs then map_sum id (Pair (Some Iredapd)) (connect cs Iredapd w2)
                      else Inr (None, w2)) of
                  Inl e \<Rightarrow> (Inl e, w2)
                | Inr (iredapd, w3) \<Rightarrow> (Inr (amavisd, iredapd), w3))))"

definition make_plugin_kwargs ::
  "smtp_session \<Rightarrow> conn_name option \<Rightarrow> conn_name option \<Rightarrow> py_exn + plugin_kwargs" where
  "make_plugin_kwargs sd amavisd iredapd =
     (case map_of sd ''sender_without_ext'' of
        None \<Rightarrow> Inl (KeyError ''sender_without_ext'')
      | Some swe \<Rightarrow>
          (case map_of sd ''recipient_without_ext'' of
             None \<Rightarrow> Inl (KeyError ''recipient_without_ext'')
           | Some rwe \<Rightarrow>
               Inr \<lparr>smtp_session_data = sd,
                    conn_vmail = Vmail,
                    conn_amavisd = amavisd,
                    conn_iredapd = iredapd,
                    sender = dict_get sd ''sender'' '''',
                    sender_without_ext = swe,
                    recipient = dict_get sd ''recipient'' '''',
                    recipient_without_ext = rwe,
                    client_address = dict_get sd ''client_address'' '''',
                    sender_domain = dict_get sd ''sender_domain'' '''',
                    recipient_domain = dict_get sd ''recipient_domain'' '''',
                    sasl_username = dict_get sd ''sasl_username'' '''',
                    sasl_username_domain = dict_get sd ''sasl_username_domain'' ''''\<rparr>))"

definition init_world :: world where
  "init_world = \<lparr>opened = [], applied = [], logged = []\<rparr>"

text \<open>
  \<open>Modeler.handle_data\<close>. The result is the returned action string or the exception
  that leaves the method, together with the world at that moment.
\<close>

definition handle_data ::
  "(action_key \<Rightarrow> string) \<Rightarrow> (plugin \<Rightarrow> plugin_kwargs \<Rightarrow> string) \<Rightarrow> conns
     \<Rightarrow> smtp_session \<Rightarrow> plugin list option \<Rightarrow> (py_exn + string) \<times> world" where
  "handle_data SMTP_ACTIONS apply_plugin cs sd plugins =
     (if plugins = None \<or> plugins = Some []
      then (Inr (SMTP_ACTIONS A_default @ '' No enabled plugins''), init_world)
      else
        (case map_of sd ''protocol_state'' of
           None \<Rightarrow> (Inl (KeyError ''protocol_state''), init_world)
         | Some st \<Rightarrow>
             (case acquire cs init_world of
                (Inl e, w) \<Rightarrow> (Inl e, w)
              | (Inr (amavisd, iredapd), w) \<Rightarrow>
                  (case make_plugin_kwargs sd amavisd iredapd of
                     Inl e \<Rightarrow> (Inl e, w)
                   | Inr kw \<Rightarrow>
                       (case run_plugins apply_plugin (upper st) kw (the plugins) w of
                          (Some action, w') \<Rightarrow> (Inr action, w')
                        | (None, w') \<Rightarrow>
                            (Inr (SMTP_ACTIONS A_default),
                             close_connections cs amavisd iredapd w'))))))"


text \<open>
  Vocabulary for stating the dispatcher's properties: the plugins whose declared protocol
  states contain the session's state, and the test the loop applies to an action.
\<close>

definition applicable :: "string \<Rightarrow> plugin list \<Rightarrow> plugin list" where
  "applicable protocol_state ps =
     filter (\<lambda>p. protocol_state \<in> set (target_protocol_state p)) ps"

definition is_default :: "string \<Rightarrow> bool" where
  "is_default action = startswith action ''DUNNO''"

section \<open>plugins/ldap_maillist_access_policy.py\<close>

text \<open>
  A directory entry maps an attribute name to its list of values. A plugin's verdict is
  written \<open>SMTP_ACTIONS[key] + text\<close> in the source and kept here as the pair of the key
  and the appended text.
\<close>

type_synonym ldif = "(string \<times> string list) list"

type_synonym action = "action_key \<times> string"

text \<open>The policy names imported from module \<open>libs\<close>.\<close>

record libs =
  MAILLIST_POLICY_PUBLIC :: string
  MAILLIST_POLICY_DOMAIN :: string
  MAILLIST_POLICY_SUBDOMAIN :: string
  MAILLIST_POLICY_MEMBERSONLY :: string
  MAILLIST_POLICY_MODERATORS :: string
  MAILLIST_POLICY_MEMBERSANDMODERATORSONLY :: string

text \<open>
  What the plugin calls outside its own module: \<open>settings.ldap_basedn\<close>,
  \<open>conn_utils.get_primary_and_alias_domains\<close>, \<open>conn.search_s\<close>, \<open>utils.bytes2str\<close> and
  \<open>utils.is_email\<close>. The two directory calls may raise.
\<close>

record directory =
  ldap_basedn :: string
  get_primary_and_alias_domains :: "string \<Rightarrow> py_exn + string list"
  search_s :: "string \<Rightarrow> nat \<Rightarrow> string \<Rightarrow> string list \<Rightarrow> py_exn + (string \<times> ldif) list"
  bytes2str :: "ldif \<Rightarrow> ldif"
  is_email :: "string \<Rightarrow> bool"

record ldap_kwargs = plugin_kwargs +
  recipient_ldif :: "ldif option"

definition quiet :: "'a \<Rightarrow> 'a \<times> string list" where
  "quiet r = (r, [])"

fun join :: "string \<Rightarrow> string list \<Rightarrow> string" where
  "join sep [] = []"
| "join sep [x] = x"
| "join sep (x # y # ys) = x @ sep @ join sep (y # ys)"

text \<open>\<open>s.split(c)\<close> for a one-character separator: the empty string gives \<open>['']\<close>.\<close>

fun split_on :: "char \<Rightarrow> string \<Rightarrow> string list" where
  "split_on c [] = [[]]"
| "split_on c (x # xs) =
     (if x = c then [] # split_on c xs
      else (case split_on c xs of w # ws \<Rightarrow> (x # w) # ws | [] \<Rightarrow> [[x]]))"

definition lstrip_dots :: "string \<Rightarrow> string" where
  "lstrip_dots s = dropWhile (\<lambda>c. c = CHR ''.'') s"

text \<open>
  Line 50: \<open>recipient_ldif.get('accessPolicy', [MAILLIST_POLICY_PUBLIC])[0].lower()\<close>.
  Element 0 of an empty list raises IndexError.
\<close>

definition read_policy :: "libs \<Rightarrow> ldif \<Rightarrow> py_exn + string" where
  "read_policy L ldif =
     (case dict_get ldif ''accessPolicy'' [MAILLIST_POLICY_PUBLIC L] of
        [] \<Rightarrow> Inl IndexError
      | p # rest \<Rightarrow> Inr (lower p))"

text \<open>
  Lines 96 to 100. The \<open>for\<close> loop iterates over \<open>_domain_parts\<close> by position while its
  body pops the first element: \<open>i\<close> is the iterator's position, and the loop ends as soon
  as \<open>i\<close> reaches the current length.
\<close>

function possible_loop :: "nat \<Rightarrow> string list \<Rightarrow> string list \<Rightarrow> string list" where
  "possible_loop i domain_parts possible =
     (if i < length domain_parts
      then possible_loop (Suc i) (tl domain_parts) (possible @ [''.'' @ join ''.'' domain_parts])
      else possible)"
  by pat_completeness auto
termination
  by (relation "measure (\<lambda>(i, domain_parts, possible). length domain_parts - i)") auto

declare possible_loop.simps [simp del]

definition possible_sender_domains :: "string \<Rightarrow> string list" where
  "possible_sender_domains sd = possible_loop 0 (split_on CHR ''.'' sd) [sd]"

text \<open>
  Lines 76 to 104: moderators, owners and explicitly allowed senders pass whatever the
  policy is. \<open>None\<close> means that none of these checks returned.
\<close>

definition bypass_listed_sender :: "ldif \<Rightarrow> string \<Rightarrow> string \<Rightarrow> action option" where
  "bypass_listed_sender ldif sndr sd =
     (let explicitly_allowed_senders = dict_get ldif ''listAllowedUser'' [] in
      if sndr \<in> set (dict_get ldif ''listModerator'' []) then Some (A_default, [])
      else if sndr \<in> set (dict_get ldif ''listOwner'' []) then Some (A_default, [])
      else if sndr \<in> set explicitly_allowed_senders
        then Some (A_default, ''  (Sender is allowed explicitly: '' @ sndr @ '')'')
      else if sd \<in> set explicitly_allowed_senders \<or> (''*@'' @ sd) \<in> set explicitly_allowed_senders
        then Some (A_default, ''  (Sender domain is allowed explicitly: '' @ sd @ '')'')
      else if set (possible_sender_domains sd) \<inter> set explicitly_allowed_senders \<noteq> {}
        then Some (A_default, '' (Sender domain or its sub-domain is explicitly allowed)'')
      else None)"

text \<open>
  The nested loops that add the values of the searched attributes of every returned
  entry to \<open>allowed_senders\<close>; \<open>conv\<close> is \<open>utils.bytes2str\<close>.
\<close>

fun collect_values :: "(ldif \<Rightarrow> ldif) \<Rightarrow> string list \<Rightarrow> (string \<times> ldif) list \<Rightarrow> string list" where
  "collect_values conv attrs [] = []"
| "collect_values conv attrs ((dn, entry) # qr) =
     concat (map (\<lambda>k. dict_get (conv entry) k []) attrs) @ collect_values conv attrs qr"

definition domain_policy :: "libs \<Rightarrow> string \<Rightarrow> string list \<Rightarrow> string \<Rightarrow> action" where
  "domain_policy L sd valid_rcpt_domains policy =
     (if policy = MAILLIST_POLICY_DOMAIN L
      then (if sd \<in> set valid_rcpt_domains then (A_default, [])
            else (A_reject_not_authorized, []))
      else if policy = MAILLIST_POLICY_SUBDOMAIN L
      then (if list_ex (\<lambda>d. sd = d \<or> endswith sd (''.'' @ d)) valid_rcpt_domains
            then (A_default, [])
            else (A_reject_not_authorized, []))
      else (A_reject_not_authorized, []))"

definition members_filter :: "string \<Rightarrow> string" where
  "members_filter rcpt =
     ''(&'' @ ''(accountStatus=active)(memberOfGroup='' @ rcpt @ '')''
       @ ''(|(objectclass=mailUser)(objectClass=mailExternalUser))'' @ '')''"

definition members_policy :: "directory \<Rightarrow> string \<Rightarrow> string \<Rightarrow> string \<Rightarrow> py_exn + action" where
  "members_policy D dn_rcpt_domain rcpt sndr =
     (case search_s D dn_rcpt_domain 2 (members_filter rcpt) [''mail'', ''shadowAddress''] of
        Inl e \<Rightarrow> Inl e
      | Inr qr \<Rightarrow>
          (if sndr \<in> set (collect_values (bytes2str D) [''mail'', ''shadowAddress''] qr)
           then Inr (A_default, [])
           else Inr (A_reject_not_authorized, [])))"

definition members_and_moderators_filter :: "string \<Rightarrow> string" where
  "members_and_moderators_filter rcpt =
     ''(|''
       @ ''(&(memberOfGroup='' @ rcpt @ '')(|(objectClass=mailUser)(objectClass=mailExternalUser)))''
       @ ''(&(objectclass=mailList)(mail='' @ rcpt @ ''))'' @ '')''"

definition query_error_message :: "libs \<Rightarrow> py_exn \<Rightarrow> string" where
  "query_error_message L e =
     ''Error while querying allowed senders of mailing list (access policy: ''
       @ MAILLIST_POLICY_MEMBERSANDMODERATORSONLY L @ ''): '' @ repr_exn e"

text \<open>
  Lines 157 to 189. The second component is what \<open>logger.error\<close> received.
\<close>

definition members_and_moderators_policy ::
  "libs \<Rightarrow> directory \<Rightarrow> string \<Rightarrow> string \<Rightarrow> string \<Rightarrow> (py_exn + action) \<times> string list" where
  "members_and_moderators_policy L D dn_rcpt_domain rcpt sndr =
     (case search_s D dn_rcpt_domain 2 (members_and_moderators_filter rcpt)
             [''mail'', ''shadowAddress'', ''listAllowedUser''] of
        Inl e \<Rightarrow>
          (Inr (A_default, '' ('' @ query_error_message L e @ '')''), [query_error_message L e])
      | Inr qr \<Rightarrow>
          (if sndr \<in> set (collect_values (bytes2str D)
                             [''mail'', ''shadowAddress'', ''listAllowedUser''] qr)
           then (Inr (A_default, []), [])
           else (Inr (A_reject_not_authorized, []), [])))"

text \<open>
  Lines 207 to 221. The \<open>for\<close> loop iterates over \<open>allowed_senders\<close> by position while
  its body removes entries from that same list (\<open>list.remove\<close> deletes the first equal
  element): \<open>i\<close> is the iterator's position. The result is \<open>(_users, _domains,
  allowed_senders)\<close> when the loop ends.
\<close>

function separate ::
  "(string \<Rightarrow> bool) \<Rightarrow> string \<Rightarrow> nat \<Rightarrow> string list \<Rightarrow> string list \<Rightarrow> string list
     \<Rightarrow> string list \<times> string list \<times> string list" where
  "separate email rd i allowed_senders users domains =
     (if i < length allowed_senders
      then
        (if email (allowed_senders ! i)
         then
           (if endswith (allowed_senders ! i) (''@'' @ rd)
            then separate email rd (Suc i) (remove1 (allowed_senders ! i) allowed_senders)
                   (users @ [allowed_senders ! i]) domains
            else separate email rd (Suc i) allowed_senders users domains)
         else separate email rd (Suc i) (remove1 (allowed_senders ! i) allowed_senders) users
                (domains @ [if startswith (allowed_senders ! i) ''.''
                            then lstrip_dots (allowed_senders ! i)
                            else allowed_senders ! i]))
      else (users, domains, allowed_senders))"
  by pat_completeness auto
termination
  by (relation "measure (\<lambda>(email, rd, i, allowed_senders, users, domains).
                  length allowed_senders - i)")
     (auto simp: length_remove1)

declare separate.simps [simp del]

definition users_filter :: "string list \<Rightarrow> string" where
  "users_filter users =
     ''(&(objectClass=mailUser)(enabledService=shadowaddress)(|''
       @ concat (map (\<lambda>i. ''(mail='' @ i @ '')(shadowAddress='' @ i @ '')'') users)
       @ ''))''"

definition domains_filter :: "string list \<Rightarrow> string" where
  "domains_filter domains =
     ''(&(objectClass=mailDomain)(enabledService=domainalias)(|''
       @ concat (map (\<lambda>i. ''(domainName='' @ i @ '')(domainAliasName='' @ i @ '')'') domains)
       @ ''))''"

text \<open>
  Lines 270 to 278: for every returned entry, all its \<open>domainName\<close> and
  \<open>domainAliasName\<close> values are added once for each of them that is in \<open>_domains\<close>.
  The entries are read as returned (no \<open>bytes2str\<close> here).
\<close>

fun alias_domains :: "string list \<Rightarrow> (string \<times> ldif) list \<Rightarrow> string list" where
  "alias_domains domains [] = []"
| "alias_domains domains ((dn, entry) # qr) =
     (let all_domains = concat (map (\<lambda>k. dict_get entry k []) [''domainName'', ''domainAliasName''])
      in concat (map (\<lambda>d. if d \<in> set domains then all_domains else []) all_domains))
     @ alias_domains domains qr"

definition expand_users ::
  "directory \<Rightarrow> string \<Rightarrow> string list \<Rightarrow> string list \<Rightarrow> py_exn + string list" where
  "expand_users D dn_rcpt_domain users allowed_senders =
     (if users \<noteq> []
      then (case search_s D (''ou=Users,'' @ dn_rcpt_domain) 1 (users_filter users)
                   [''mail'', ''shadowAddress''] of
              Inl e \<Rightarrow> Inl e
            | Inr qr \<Rightarrow>
                Inr (allowed_senders
                       @ collect_values (bytes2str D) [''mail'', ''shadowAddress''] qr))
      else Inr allowed_senders)"

definition expand_domains ::
  "directory \<Rightarrow> string list \<Rightarrow> string list \<Rightarrow> py_exn + string list" where
  "expand_domains D domains allowed_senders =
     (if domains \<noteq> []
      then (case search_s D (ldap_basedn D) 1 (domains_filter domains)
                   [''domainName'', ''domainAliasName''] of
              Inl e \<Rightarrow> Inl e
            | Inr qr \<Rightarrow> Inr (allowed_senders @ alias_domains domains qr))
      else Inr allowed_senders)"

text \<open>Lines 191 to 284.\<close>

definition moderators_policy ::
  "directory \<Rightarrow> string \<Rightarrow> string \<Rightarrow> string \<Rightarrow> string \<Rightarrow> string \<Rightarrow> string list
     \<Rightarrow> py_exn + action" where
  "moderators_policy D sasl sndr sd rd dn_rcpt_domain explicitly_allowed_senders =
     (if sasl = [] then Inr (A_reject_not_authorized, [])
      else
        (case separate (is_email D) rd 0
                (filter (\<lambda>s. \<not> startswith s ''*@'') explicitly_allowed_senders) [] [] of
           (users, domains, allowed_senders) \<Rightarrow>
             (case expand_users D dn_rcpt_domain users allowed_senders of
                Inl e \<Rightarrow> Inl e
              | Inr with_users \<Rightarrow>
                  (case expand_domains D domains with_users of
                     Inl e \<Rightarrow> Inl e
                   | Inr expanded \<Rightarrow>
                       (if sndr \<in> set expanded \<or> sd \<in> set expanded
                        then Inr (A_default, [])
                        else Inr (A_reject_not_authorized, []))))))"

text \<open>Lines 108 to 286: the branch on the policy name.\<close>

definition verify_policy ::
  "libs \<Rightarrow> directory \<Rightarrow> ldap_kwargs \<Rightarrow> string list \<Rightarrow> string list \<Rightarrow> string
     \<Rightarrow> (py_exn + action) \<times> string list" where
  "verify_policy L D kw valid_rcpt_domains explicitly_allowed_senders policy =
     (let dn_rcpt_domain = ''domainName='' @ recipient_domain kw @ '','' @ ldap_basedn D in
      if policy \<in> set [MAILLIST_POLICY_DOMAIN L, MAILLIST_POLICY_SUBDOMAIN L]
        then quiet (Inr (domain_policy L (sender_domain kw) valid_rcpt_domains policy))
      else if policy = MAILLIST_POLICY_MEMBERSONLY L
        then quiet (members_policy D dn_rcpt_domain (recipient_without_ext kw)
                      (sender_without_ext kw))
      else if policy = MAILLIST_POLICY_MEMBERSANDMODERATORSONLY L
        then members_and_moderators_policy L D dn_rcpt_domain (recipient_without_ext kw)
               (sender_without_ext kw)
      else if policy = MAILLIST_POLICY_MODERATORS L
        then quiet (moderators_policy D (sasl_username kw) (sender_without_ext kw)
                      (sender_domain kw) (recipient_domain kw) dn_rcpt_domain
                      explicitly_allowed_senders)
      else quiet (Inr (A_default,
                       '' (Unknown access policy: '' @ policy @ '', no restriction)'')))"

text \<open>
  \<open>restriction\<close> of this plugin. The first component is the verdict or the exception
  that leaves the function, the second what \<open>logger.error\<close> received.
\<close>

definition access_policy_restriction ::
  "libs \<Rightarrow> directory \<Rightarrow> ldap_kwargs \<Rightarrow> (py_exn + action) \<times> string list" where
  "access_policy_restriction L D kw =
     (if sasl_username kw = recipient_without_ext kw
      then quiet (Inr (A_default, '' (sasl_username == recipient, not a mail list account)''))
      else
        (case recipient_ldif kw of
           None \<Rightarrow>
             quiet (Inr (A_default, '' (Recipient is not a local account - no LDIF data)''))
         | Some ldif \<Rightarrow>
             if ldif = []
             then quiet (Inr (A_default, '' (Recipient is not a local account - no LDIF data)''))
             else
               (case map_of ldif ''objectClass'' of
                  None \<Rightarrow> quiet (Inl (KeyError ''objectClass''))
                | Some object_class \<Rightarrow>
                    if ''mailList'' \<notin> set object_class
                    then quiet (Inr (A_default, '' (Recipient is not a mailing list account)''))
                    else if dict_get ldif ''accountStatus'' [] \<noteq> [''active'']
                    then quiet (Inr (A_reject, []))
                    else
                      (case read_policy L ldif of
                         Inl e \<Rightarrow> quiet (Inl e)
                       | Inr p \<Rightarrow>
                           if p = MAILLIST_POLICY_PUBLIC L
                           then quiet (Inr (A_default,
                                  '' (Access policy: '' @ MAILLIST_POLICY_PUBLIC L
                                    @ '', no restriction)''))
                           else
                             (let policy = (if p = ''allowedonly''
                                            then MAILLIST_POLICY_MODERATORS L else p)
                              in
                                if ''mlmmj'' \<in> set (dict_get ldif ''enabledService'' [])
                                   \<and> policy \<in> set [MAILLIST_POLICY_MEMBERSONLY L,
                                                    MAILLIST_POLICY_MODERATORS L]
                                then quiet (Inr (A_default, []))
                                else
                                  (case get_primary_and_alias_domains D (recipient_domain kw) of
                                     Inl e \<Rightarrow> quiet (Inl e)
                                   | Inr valid_rcpt_domains \<Rightarrow>
                                       (case bypass_listed_sender ldif (sender_without_ext kw)
                                               (sender_domain kw) of
                                          Some v \<Rightarrow> quiet (Inr v)
                                        | None \<Rightarrow>
                                            verify_policy L D kw valid_rcpt_domains
                                              (dict_get ldif ''listAllowedUser'' []) policy)))))))"








section \<open>plugins/reject_sender_login_mismatch.py\<close>

text \<open>The settings the module reads, under the names of \<open>settings.py\<close>.\<close>

record settings =
  backend :: string
  CHECK_FORGED_SENDER :: bool
  ALLOWED_FORGED_SENDERS :: "string list"
  ALLOWED_LOGIN_MISMATCH_SENDERS :: "string list"
  ALLOWED_LOGIN_MISMATCH_STRICTLY :: bool
  ALLOWED_LOGIN_MISMATCH_LIST_MEMBER :: bool
  CHECK_SPF_IF_LOGIN_MISMATCH :: bool
  mlmmjadmin_api_auth_token :: string
  mlmmjadmin_api_endpoint :: string
  MLMMJADMIN_API_AUTH_TOKEN_HEADER_NAME :: string

datatype json =
  JNull | JBool bool | JNum int | JStr string | JArr "json list" | JObj "(string \<times> json) list"

text \<open>
  What the plugin calls outside its own module: \<open>utils.is_trusted_client\<close>,
  \<open>is_local_domain\<close> (always with \<open>include_backupmx=False\<close>),
  \<open>dnsspf.is_allowed_server_in_spf\<close>, \<open>conn_utils.get_account_ldif\<close> (of whose result only
  the DN is read), \<open>sqlquote\<close>, \<open>conn.execute(sql).fetchone()\<close> and
  \<open>requests.get(...).json()\<close>. All but the first and \<open>sqlquote\<close> may raise.
\<close>

record collaborators =
  is_trusted_client :: "string \<Rightarrow> bool"
  is_local_domain :: "string \<Rightarrow> py_exn + bool"
  is_allowed_server_in_spf :: "string \<Rightarrow> string \<Rightarrow> py_exn + bool"
  get_account_ldif :: "string \<Rightarrow> string \<Rightarrow> py_exn + string option"
  sqlquote :: "string \<Rightarrow> string"
  fetchone :: "string \<Rightarrow> py_exn + string list option"
  requests_get_json :: "string \<Rightarrow> (string \<times> string) list \<Rightarrow> py_exn + json"

text \<open>An early \<open>return\<close> of a verdict, or the values the code goes on with.\<close>

datatype 'a step = Return action | Continue 'a

text \<open>\<open>s.split('@', 1)\<close>: the part before the first \<open>@\<close> and the part after it.\<close>

definition before_at :: "string \<Rightarrow> string" where
  "before_at s = takeWhile (\<lambda>c. c \<noteq> CHR ''@'') s"

definition after_at :: "string \<Rightarrow> string" where
  "after_at s = tl (dropWhile (\<lambda>c. c \<noteq> CHR ''@'') s)"

definition action_reject :: action where
  "action_reject = (A_reject_sender_login_mismatch, [])"

text \<open>Lines 149 to 196: no \<open>sasl_username\<close>.\<close>

definition unauthenticated_sender ::
  "settings \<Rightarrow> collaborators \<Rightarrow> string \<Rightarrow> string \<Rightarrow> string \<Rightarrow> string \<Rightarrow> string
     \<Rightarrow> py_exn + action" where
  "unauthenticated_sender S C sndr sender_name sd rd client =
     (if is_trusted_client C client then Inr (A_default, [])
      else if \<not> CHECK_FORGED_SENDER S then Inr (A_default, [])
      else if sndr \<in> set (ALLOWED_FORGED_SENDERS S)
              \<or> sd \<in> set (ALLOWED_FORGED_SENDERS S)
              \<or> (sender_name @ ''@*'') \<in> set (ALLOWED_FORGED_SENDERS S)
        then Inr (A_default, [])
      else
        (case (if sd = rd then Inr True else is_local_domain C sd) of
           Inl e \<Rightarrow> Inl e
         | Inr is_local_sender_domain \<Rightarrow>
             if is_local_sender_domain
             then
               (if CHECK_SPF_IF_LOGIN_MISMATCH S
                then (case is_allowed_server_in_spf C sd client of
                        Inl e \<Rightarrow> Inl e
                      | Inr allowed \<Rightarrow>
                          if allowed then Inr (A_default, [])
                          else Inr (A_reject_forged_sender, []))
                else Inr (A_reject_forged_sender, []))
             else Inr (A_default, [])))"

text \<open>
  Lines 214 to 228: \<open>Some\<close> is a verdict returned by the allow-list, \<open>None\<close> means that
  the code goes on to the next checks.
\<close>

definition explicitly_allowed_sender :: "string list \<Rightarrow> string \<Rightarrow> string \<Rightarrow> string \<Rightarrow> action option" where
  "explicitly_allowed_sender allowed_senders sasl sasl_domain sd =
     (if allowed_senders \<noteq> []
      then
        (if sasl \<in> set allowed_senders then Some (A_default, [])
         else if sasl_domain \<in> set allowed_senders then Some (A_default, [])
         else if (''@'' @ sasl_domain) \<in> set allowed_senders \<or> ''@.'' \<in> set allowed_senders
           then (if sasl_domain = sd then Some (A_default, []) else None)
         else None)
      else None)"

definition dn_found :: "string option \<Rightarrow> bool" where
  "dn_found dn = (case dn of None \<Rightarrow> False | Some d \<Rightarrow> d \<noteq> [])"

definition filter_user_alias :: "string \<Rightarrow> string \<Rightarrow> string" where
  "filter_user_alias sasl sndr =
     ''(&(objectClass=mailUser)(mail='' @ sasl @ '')(shadowAddress='' @ sndr @ ''))''"

definition filter_list_member :: "string \<Rightarrow> string \<Rightarrow> string" where
  "filter_list_member sasl sndr =
     ''(&(objectClass=mailUser)(|(mail='' @ sasl @ '')(shadowAddress='' @ sasl
       @ ''))(memberOfGroup='' @ sndr @ ''))''"

definition filter_alias_member :: "string \<Rightarrow> string \<Rightarrow> string" where
  "filter_alias_member sasl sndr =
     ''(&(objectClass=mailAlias)(|(mail='' @ sndr @ '')(shadowAddress='' @ sndr
       @ ''))(mailForwardingAddress='' @ sasl @ ''))''"

definition ldap_query_filter :: "bool \<Rightarrow> bool \<Rightarrow> string \<Rightarrow> string \<Rightarrow> string" where
  "ldap_query_filter is_strict allow_list_member sasl sndr =
     (if is_strict \<and> \<not> allow_list_member then filter_user_alias sasl sndr
      else if \<not> is_strict \<and> allow_list_member
        then ''(|'' @ filter_list_member sasl sndr @ filter_alias_member sasl sndr @ '')''
      else ''(|'' @ filter_user_alias sasl sndr @ filter_list_member sasl sndr
             @ filter_alias_member sasl sndr @ '')'')"

text \<open>
  Lines 241 to 277. The result is a returned verdict or \<open>_check_mlmmj_ml\<close>.
\<close>

definition ldap_checks ::
  "settings \<Rightarrow> collaborators \<Rightarrow> string \<Rightarrow> string \<Rightarrow> py_exn + bool step" where
  "ldap_checks S C sasl sndr =
     (case get_account_ldif C sasl
             (ldap_query_filter (ALLOWED_LOGIN_MISMATCH_STRICTLY S)
                (ALLOWED_LOGIN_MISMATCH_LIST_MEMBER S) sasl sndr) of
        Inl e \<Rightarrow> Inl e
      | Inr dn \<Rightarrow>
          if dn_found dn then Inr (Return (A_default, []))
          else
            (case get_account_ldif C sndr
                    ''(&(objectClass=mailList)(enabledService=mlmmj)(accountStatus=active))'' of
               Inl e \<Rightarrow> Inl e
             | Inr list_dn \<Rightarrow> Inr (Continue (dn_found list_dn))))"

definition sql_user_alias :: "collaborators \<Rightarrow> string \<Rightarrow> string \<Rightarrow> string \<Rightarrow> string \<Rightarrow> string" where
  "sql_user_alias C sndr real_sasl real_sasl_user sasl_domain =
     ''SELECT address'' @ [CHR 0x0A]
     @ ''                           FROM forwardings'' @ [CHR 0x0A]
     @ ''                          WHERE address='' @ sqlquote C sndr
     @ '' AND (forwarding='' @ sqlquote C real_sasl
     @ '' OR forwarding LIKE '' @ sqlquote C (real_sasl_user @ ''+%%@'' @ sasl_domain)
     @ '') AND is_alias=1'' @ [CHR 0x0A]
     @ ''                          LIMIT 1''"

definition sql_alias_domain :: "collaborators \<Rightarrow> string \<Rightarrow> string \<Rightarrow> string" where
  "sql_alias_domain C sd sasl_domain =
     ''SELECT alias_domain'' @ [CHR 0x0A]
     @ ''                               FROM alias_domain'' @ [CHR 0x0A]
     @ ''                              WHERE alias_domain='' @ sqlquote C sd
     @ '' AND target_domain='' @ sqlquote C sasl_domain @ [CHR 0x0A]
     @ ''                              LIMIT 1''"

definition sql_alias_member :: "collaborators \<Rightarrow> string \<Rightarrow> string \<Rightarrow> string" where
  "sql_alias_member C real_sender real_sasl =
     ''SELECT forwarding'' @ [CHR 0x0A]
     @ ''                           FROM forwardings'' @ [CHR 0x0A]
     @ ''                          WHERE address='' @ sqlquote C real_sender
     @ '' AND forwarding='' @ sqlquote C real_sasl
     @ '' AND is_list=1 AND active=1'' @ [CHR 0x0A]
     @ ''                          LIMIT 1''"

definition sql_maillist :: "collaborators \<Rightarrow> string \<Rightarrow> string" where
  "sql_maillist C real_sender =
     ''SELECT id FROM maillists WHERE address='' @ sqlquote C real_sender
     @ '' AND active=1 LIMIT 1''"

text \<open>
  Lines 280 to 325 (\<open>is_strict\<close>). The code goes on with
  \<open>(real_sasl_username, real_sender)\<close>.
\<close>

definition sql_strict_checks ::
  "collaborators \<Rightarrow> string \<Rightarrow> string \<Rightarrow> string \<Rightarrow> string \<Rightarrow> string \<Rightarrow> string
     \<Rightarrow> py_exn + (string \<times> string) step" where
  "sql_strict_checks C sasl sasl_user sasl_domain sndr sender_name sd =
     (case fetchone C (sql_user_alias C sndr sasl sasl_user sasl_domain) of
        Inl e \<Rightarrow> Inl e
      | Inr (Some sql_record) \<Rightarrow> Inr (Return (A_default, []))
      | Inr None \<Rightarrow>
          if sd \<noteq> sasl_domain
          then
            (case fetchone C (sql_alias_domain C sd sasl_domain) of
               Inl e \<Rightarrow> Inl e
             | Inr None \<Rightarrow> Inr (Continue (sasl, sndr))
             | Inr (Some sql_record) \<Rightarrow>
                 if sender_name \<noteq> sasl_user
                 then Inr (Continue (sasl_user @ ''@'' @ sasl_domain,
                                     sender_name @ ''@'' @ sasl_domain))
                 else Inr (Return (A_default, [])))
          else Inr (Continue (sasl, sndr)))"

text \<open>Lines 327 to 356 (\<open>allow_list_member\<close>). The code goes on with \<open>_check_mlmmj_ml\<close>.\<close>

definition sql_list_member_checks ::
  "collaborators \<Rightarrow> string \<Rightarrow> string \<Rightarrow> py_exn + bool step" where
  "sql_list_member_checks C real_sasl real_sender =
     (case fetchone C (sql_alias_member C real_sender real_sasl) of
        Inl e \<Rightarrow> Inl e
      | Inr (Some sql_record) \<Rightarrow> Inr (Return (A_default, []))
      | Inr None \<Rightarrow>
          (case fetchone C (sql_maillist C real_sender) of
             Inl e \<Rightarrow> Inl e
           | Inr (Some sql_record) \<Rightarrow> Inr (Continue True)
           | Inr None \<Rightarrow> Inr (Continue False)))"

definition sql_checks ::
  "settings \<Rightarrow> collaborators \<Rightarrow> string \<Rightarrow> string \<Rightarrow> string \<Rightarrow> string \<Rightarrow> string \<Rightarrow> string
     \<Rightarrow> py_exn + (bool \<times> string) step" where
  "sql_checks S C sasl sasl_user sasl_domain sndr sender_name sd =
     (case (if ALLOWED_LOGIN_MISMATCH_STRICTLY S
            then sql_strict_checks C sasl sasl_user sasl_domain sndr sender_name sd
            else Inr (Continue (sasl, sndr))) of
        Inl e \<Rightarrow> Inl e
      | Inr (Return v) \<Rightarrow> Inr (Return v)
      | Inr (Continue (real_sasl, real_sender)) \<Rightarrow>
          if ALLOWED_LOGIN_MISMATCH_LIST_MEMBER S
          then (case sql_list_member_checks C real_sasl real_sender of
                  Inl e \<Rightarrow> Inl e
                | Inr (Return v) \<Rightarrow> Inr (Return v)
                | Inr (Continue check_mlmmj_ml) \<Rightarrow> Inr (Continue (check_mlmmj_ml, real_sender)))
          else Inr (Continue (False, real_sender)))"

text \<open>
  Lines 231 to 356: the alias and membership checks of the configured backend. The code
  goes on with \<open>(_check_mlmmj_ml, real_sender)\<close>.
\<close>

definition backend_checks ::
  "settings \<Rightarrow> collaborators \<Rightarrow> string \<Rightarrow> string \<Rightarrow> string \<Rightarrow> string \<Rightarrow> string \<Rightarrow> string
     \<Rightarrow> py_exn + (bool \<times> string) step" where
  "backend_checks S C sasl sasl_user sasl_domain sndr sender_name sd =
     (if ALLOWED_LOGIN_MISMATCH_STRICTLY S \<or> ALLOWED_LOGIN_MISMATCH_LIST_MEMBER S
      then
        (if backend S = ''ldap''
         then (case ldap_checks S C sasl sndr of
                 Inl e \<Rightarrow> Inl e
               | Inr (Return v) \<Rightarrow> Inr (Return v)
               | Inr (Continue check_mlmmj_ml) \<Rightarrow> Inr (Continue (check_mlmmj_ml, sndr)))
         else if backend S \<in> set [''mysql'', ''pgsql'']
         then sql_checks S C sasl sasl_user sasl_domain sndr sender_name sd
         else Inr (Continue (False, sndr)))
      else Inr (Continue (False, sndr)))"

text \<open>
  \<open>_json['_success']\<close> and the truth value Python gives the result. Only a JSON object
  can be read by a key; the messages are CPython's (for a string, the wording of
  Python 3.11 and later).
\<close>

definition not_subscriptable :: "string \<Rightarrow> string" where
  "not_subscriptable type_name =
     [CHR 0x27] @ type_name @ [CHR 0x27] @ '' object is not subscriptable''"

definition json_getitem :: "json \<Rightarrow> string \<Rightarrow> py_exn + json" where
  "json_getitem j k =
     (case j of
        JObj members \<Rightarrow> (case map_of members k of None \<Rightarrow> Inl (KeyError k) | Some v \<Rightarrow> Inr v)
      | JArr xs \<Rightarrow> Inl (TypeError ''list indices must be integers or slices, not str'')
      | JStr s \<Rightarrow>
          Inl (TypeError (''string indices must be integers, not ''
                 @ [CHR 0x27] @ ''str'' @ [CHR 0x27]))
      | JNum n \<Rightarrow> Inl (TypeError (not_subscriptable ''int''))
      | JBool b \<Rightarrow> Inl (TypeError (not_subscriptable ''bool''))
      | JNull \<Rightarrow> Inl (TypeError (not_subscriptable ''NoneType'')))"

definition json_truthy :: "json \<Rightarrow> bool" where
  "json_truthy j =
     (case j of
        JNull \<Rightarrow> False
      | JBool b \<Rightarrow> b
      | JNum n \<Rightarrow> n \<noteq> 0
      | JStr s \<Rightarrow> s \<noteq> []
      | JArr xs \<Rightarrow> xs \<noteq> []
      | JObj members \<Rightarrow> members \<noteq> [])"

definition api_error_message :: "py_exn \<Rightarrow> string" where
  "api_error_message e = ''Error while querying mlmmjadmin api: '' @ str_exn e"

text \<open>
  Lines 358 to 376, entered with \<open>_check_mlmmj_ml\<close> set: \<open>Some\<close> is the verdict returned
  from inside the \<open>try\<close> block, \<open>None\<close> means that the code falls through to the final
  \<open>return action_reject\<close>. The second component is what \<open>logger.error\<close> received.
\<close>

definition mlmmjadmin_check ::
  "settings \<Rightarrow> collaborators \<Rightarrow> string \<Rightarrow> string \<Rightarrow> action option \<times> string list" where
  "mlmmjadmin_check S C real_sender sasl =
     (if mlmmjadmin_api_auth_token S \<noteq> [] \<and> mlmmjadmin_api_endpoint S \<noteq> []
      then
        (case requests_get_json C
                (join ''/'' [mlmmjadmin_api_endpoint S, real_sender, ''has_subscriber'', sasl])
                [(MLMMJADMIN_API_AUTH_TOKEN_HEADER_NAME S, mlmmjadmin_api_auth_token S)] of
           Inl e \<Rightarrow> (None, [api_error_message e])
         | Inr j \<Rightarrow>
             (case json_getitem j ''_success'' of
                Inl e \<Rightarrow> (None, [api_error_message e])
              | Inr success \<Rightarrow>
                  if json_truthy success then (Some (A_default, []), []) else (None, [])))
      else (None, []))"

text \<open>Lines 209 to 376: an authenticated sender whose address is not the login.\<close>

definition mismatched_sender ::
  "settings \<Rightarrow> collaborators \<Rightarrow> string \<Rightarrow> string \<Rightarrow> string \<Rightarrow> string \<Rightarrow> string \<Rightarrow> string
     \<Rightarrow> (py_exn + action) \<times> string list" where
  "mismatched_sender S C sasl sasl_user sasl_domain sndr sender_name sd =
     (if \<not> (ALLOWED_LOGIN_MISMATCH_SENDERS S \<noteq> [] \<or> ALLOWED_LOGIN_MISMATCH_STRICTLY S
             \<or> ALLOWED_LOGIN_MISMATCH_LIST_MEMBER S)
      then (Inr action_reject, [])
      else
        (case explicitly_allowed_sender (ALLOWED_LOGIN_MISMATCH_SENDERS S) sasl sasl_domain sd of
           Some v \<Rightarrow> (Inr v, [])
         | None \<Rightarrow>
             (case backend_checks S C sasl sasl_user sasl_domain sndr sender_name sd of
                Inl e \<Rightarrow> (Inl e, [])
              | Inr (Return v) \<Rightarrow> (Inr v, [])
              | Inr (Continue (check_mlmmj_ml, real_sender)) \<Rightarrow>
                  if check_mlmmj_ml
                  then (case mlmmjadmin_check S C real_sender sasl of
                          (Some v, errors) \<Rightarrow> (Inr v, errors)
                        | (None, errors) \<Rightarrow> (Inr action_reject, errors))
                  else (Inr action_reject, []))))"

text \<open>
  \<open>restriction\<close> of this plugin. Unpacking \<open>sender.split('@', 1)\<close> into two names
  raises ValueError for a non-empty sender without \<open>@\<close>.
\<close>

definition login_mismatch_restriction ::
  "settings \<Rightarrow> collaborators \<Rightarrow> plugin_kwargs \<Rightarrow> (py_exn + action) \<times> string list" where
  "login_mismatch_restriction S C kw =
     (if sender_without_ext kw \<noteq> [] \<and> CHR ''@'' \<notin> set (sender_without_ext kw)
      then (Inl ValueError, [])
      else
        (let sasl = sasl_username kw;
             sndr = sender_without_ext kw;
             sender_name = (if sndr \<noteq> [] then before_at sndr else []);
             sd = (if sndr \<noteq> [] then after_at sndr else [])
         in
           if sasl \<noteq> [] \<and> sndr = [] then (Inr (A_default, []), [])
           else if sasl = []
             then (unauthenticated_sender S C sndr sender_name sd (recipient_domain kw)
                     (client_address kw), [])
           else if sndr = sasl then (Inr (A_default, []), [])
           else mismatched_sender S C sasl (before_at sasl) (sasl_username_domain kw)
                  sndr sender_name sd))"

section \<open>Sample environments\<close>

text \<open>
  Concrete sessions, plugins and collaborators, used to evaluate the definitions above.
  They stand in for parts of the service that the three modules only call.
\<close>

definition sample_actions :: "action_key \<Rightarrow> string" where
  "sample_actions k =
     (case k of
        A_default \<Rightarrow> ''DUNNO''
      | A_reject \<Rightarrow> ''REJECT Not authorized''
      | A_reject_not_authorized \<Rightarrow> ''REJECT Not authorized''
      | A_reject_sender_login_mismatch \<Rightarrow>
          ''REJECT Sender is not same as SMTP authenticate username''
      | A_reject_forged_sender \<Rightarrow>
          ''REJECT SMTP AUTH is required for users under this sender domain'')"

definition sample_session :: smtp_session where
  "sample_session =
     [(''protocol_state'', ''rcpt''),
      (''sender'', ''bob@example.com''),
      (''sender_without_ext'', ''bob@example.com''),
      (''recipient'', ''list@example.com''),
      (''recipient_without_ext'', ''list@example.com''),
      (''sender_domain'', ''example.com''),
      (''recipient_domain'', ''example.com''),
      (''client_address'', ''192.0.2.7'')]"

definition sample_kwargs :: plugin_kwargs where
  "sample_kwargs =
     \<lparr>smtp_session_data = sample_session, conn_vmail = Vmail,
      conn_amavisd = Some Amavisd, conn_iredapd = Some Iredapd,
      sender = ''bob@example.com'', sender_without_ext = ''bob@example.com'',
      recipient = ''list@example.com'', recipient_without_ext = ''list@example.com'',
      client_address = ''192.0.2.7'', sender_domain = ''example.com'',
      recipient_domain = ''example.com'', sasl_username = [],
      sasl_username_domain = []\<rparr>"

definition plugin_eom :: plugin where
  "plugin_eom = \<lparr>plugin_name = ''eom_only'', SMTP_PROTOCOL_STATE = Some [''END-OF-MESSAGE'']\<rparr>"

definition plugin_pass :: plugin where
  "plugin_pass = \<lparr>plugin_name = ''pass'', SMTP_PROTOCOL_STATE = None\<rparr>"

definition plugin_reject :: plugin where
  "plugin_reject =
     \<lparr>plugin_name = ''reject'', SMTP_PROTOCOL_STATE = Some [''RCPT'', ''END-OF-MESSAGE'']\<rparr>"

definition plugin_late :: plugin where
  "plugin_late = \<lparr>plugin_name = ''late'', SMTP_PROTOCOL_STATE = Some [''RCPT'']\<rparr>"

definition sample_apply_plugin :: "plugin \<Rightarrow> plugin_kwargs \<Rightarrow> string" where
  "sample_apply_plugin p kw =
     (if plugin_name p = ''pass'' then ''DUNNO (nothing to say)''
      else ''REJECT '' @ plugin_name p @ '' refuses '' @ sender kw)"

definition sample_conns :: conns where
  "sample_conns =
     \<lparr>has_amavisd = True, has_iredapd = True,
      connect_raises = (\<lambda>c. False), close_raises = (\<lambda>c. False)\<rparr>"

definition failing_close_conns :: conns where
  "failing_close_conns =
     \<lparr>has_amavisd = True, has_iredapd = True,
      connect_raises = (\<lambda>c. False), close_raises = (\<lambda>c. c = Vmail)\<rparr>"

definition sample_libs :: libs where
  "sample_libs =
     \<lparr>MAILLIST_POLICY_PUBLIC = ''public'',
      MAILLIST_POLICY_DOMAIN = ''domain'',
      MAILLIST_POLICY_SUBDOMAIN = ''subdomain'',
      MAILLIST_POLICY_MEMBERSONLY = ''membersonly'',
      MAILLIST_POLICY_MODERATORS = ''moderatorsonly'',
      MAILLIST_POLICY_MEMBERSANDMODERATORSONLY = ''membersandmoderatorsonly''\<rparr>"

text \<open>
  A small directory: the list \<open>list@example.com\<close> has the member \<open>alice@example.com\<close>
  (alias \<open>al@example.com\<close>) and, as a list entry, allows \<open>carol@partner.org\<close>; the user
  \<open>carol@example.com\<close> has the alias \<open>cj@example.com\<close>; the mail domain \<open>partner.org\<close>
  has the alias domain \<open>partner.net\<close>.
\<close>

definition sample_search ::
  "string \<Rightarrow> nat \<Rightarrow> string \<Rightarrow> string list \<Rightarrow> py_exn + (string \<times> ldif) list" where
  "sample_search base scope f attrs =
     (if f = members_and_moderators_filter ''list@example.com''
      then Inr [(''mail=alice@example.com,ou=Users,domainName=example.com,o=domains'',
                 [(''mail'', [''alice@example.com'']), (''shadowAddress'', [''al@example.com''])]),
                (''mail=list@example.com,ou=Groups,domainName=example.com,o=domains'',
                 [(''mail'', [''list@example.com'']), (''listAllowedUser'', [''carol@partner.org''])])]
      else if f = users_filter [''carol@example.com'']
      then Inr [(''mail=carol@example.com,ou=Users,domainName=example.com,o=domains'',
                 [(''mail'', [''carol@example.com'']), (''shadowAddress'', [''cj@example.com''])])]
      else if f = domains_filter [''partner.org'']
      then Inr [(''domainName=partner.org,o=domains'',
                 [(''domainName'', [''partner.org'']), (''domainAliasName'', [''partner.net''])])]
      else Inr [])"

definition sample_directory :: directory where
  "sample_directory =
     \<lparr>ldap_basedn = ''o=domains'',
      get_primary_and_alias_domains = (\<lambda>d. Inr [d]),
      search_s = sample_search,
      bytes2str = (\<lambda>entry. entry),
      is_email = (\<lambda>s. CHR ''@'' \<in> set s)\<rparr>"

definition failing_directory :: directory where
  "failing_directory =
     \<lparr>ldap_basedn = ''o=domains'',
      get_primary_and_alias_domains = (\<lambda>d. Inr [d]),
      search_s = (\<lambda>base scope f attrs. Inl (Raised ''SERVER_DOWN()'')),
      bytes2str = (\<lambda>entry. entry),
      is_email = (\<lambda>s. CHR ''@'' \<in> set s)\<rparr>"

text \<open>A request to \<open>list@example.com\<close> from \<open>sndr\<close>, authenticated as \<open>sasl\<close>.\<close>

definition list_request :: "string \<Rightarrow> string \<Rightarrow> string \<Rightarrow> ldif \<Rightarrow> ldap_kwargs" where
  "list_request sasl sndr sd entry =
     \<lparr>smtp_session_data = [], conn_vmail = Vmail, conn_amavisd = None, conn_iredapd = None,
      sender = sndr, sender_without_ext = sndr,
      recipient = ''list@example.com'', recipient_without_ext = ''list@example.com'',
      client_address = ''192.0.2.7'', sender_domain = sd,
      recipient_domain = ''example.com'', sasl_username = sasl,
      sasl_username_domain = sd, recipient_ldif = Some entry\<rparr>"

definition list_entry :: "string list \<Rightarrow> string list \<Rightarrow> string list \<Rightarrow> ldif" where
  "list_entry status policy allowed =
     [(''objectClass'', [''mailList'']),
      (''accountStatus'', status),
      (''accessPolicy'', policy),
      (''listAllowedUser'', allowed)]"

definition sample_settings :: settings where
  "sample_settings =
     \<lparr>backend = ''ldap'',
      CHECK_FORGED_SENDER = True,
      ALLOWED_FORGED_SENDERS = [''support@*''],
      ALLOWED_LOGIN_MISMATCH_SENDERS = [],
      ALLOWED_LOGIN_MISMATCH_STRICTLY = True,
      ALLOWED_LOGIN_MISMATCH_LIST_MEMBER = False,
      CHECK_SPF_IF_LOGIN_MISMATCH = False,
      mlmmjadmin_api_auth_token = ''token'',
      mlmmjadmin_api_endpoint = ''http://127.0.0.1:7790/api'',
      MLMMJADMIN_API_AUTH_TOKEN_HEADER_NAME = ''X-MLMMJADMIN-API-AUTH-TOKEN''\<rparr>"

text \<open>
  A server that hosts \<open>example.com\<close>, trusts the loopback address, knows the alias
  \<open>al@example.com\<close> of \<open>alice@example.com\<close> and the mlmmj list \<open>news@example.com\<close>.
  The list manager's API is parameter \<open>api\<close>.
\<close>

definition sample_account_ldif :: "string \<Rightarrow> string \<Rightarrow> py_exn + string option" where
  "sample_account_ldif account query_filter =
     (if account = ''alice@example.com''
         \<and> query_filter = filter_user_alias ''alice@example.com'' ''al@example.com''
      then Inr (Some ''mail=alice@example.com,ou=Users,domainName=example.com,o=domains'')
      else if account = ''news@example.com''
         \<and> query_filter = ''(&(objectClass=mailList)(enabledService=mlmmj)(accountStatus=active))''
      then Inr (Some ''mail=news@example.com,ou=Groups,domainName=example.com,o=domains'')
      else Inr None)"

definition sample_collaborators ::
  "(string \<Rightarrow> (string \<times> string) list \<Rightarrow> py_exn + json) \<Rightarrow> collaborators" where
  "sample_collaborators api =
     \<lparr>is_trusted_client = (\<lambda>address. address = ''127.0.0.1''),
      is_local_domain = (\<lambda>d. Inr (d = ''example.com'')),
      is_allowed_server_in_spf = (\<lambda>d address. Inr False),
      get_account_ldif = sample_account_ldif,
      sqlquote = (\<lambda>s. [CHR 0x27] @ s @ [CHR 0x27]),
      fetchone = (\<lambda>sql. Inr None),
      requests_get_json = api\<rparr>"

definition unreachable_api :: "string \<Rightarrow> (string \<times> string) list \<Rightarrow> py_exn + json" where
  "unreachable_api url headers = Inl (Raised ''Connection refused'')"

definition answering_api :: "json \<Rightarrow> string \<Rightarrow> (string \<times> string) list \<Rightarrow> py_exn + json" where
  "answering_api answer url headers = Inr answer"

definition mismatch_request :: "string \<Rightarrow> string \<Rightarrow> string \<Rightarrow> string \<Rightarrow> string \<Rightarrow> plugin_kwargs" where
  "mismatch_request sasl sasl_domain sndr rcpt_domain address =
     \<lparr>smtp_session_data = [], conn_vmail = Vmail, conn_amavisd = None, conn_iredapd = None,
      sender = sndr, sender_without_ext = sndr,
      recipient = ''postmaster@'' @ rcpt_domain,
      recipient_without_ext = ''postmaster@'' @ rcpt_domain,
      client_address = address, sender_domain = after_at sndr,
      recipient_domain = rcpt_domain, sasl_username = sasl,
      sasl_username_domain = sasl_domain\<rparr>"

section \<open>The dispatcher: properties\<close>

lemma upper_rcpt: "upper ''rcpt'' = ''RCPT''"
  by code_simp

lemma run_plugins_result:
  "fst (run_plugins ap st kw ps w) =
     map_option (\<lambda>p. ap p kw) (find (\<lambda>p. \<not> is_default (ap p kw)) (applicable st ps))"
  by (induction ps arbitrary: w) (simp_all add: applicable_def is_default_def Let_def)

lemma run_plugins_applied:
  "applied (snd (run_plugins ap st kw ps w)) =
     applied w @ takeWhile (\<lambda>p. is_default (ap p kw)) (applicable st ps)
       @ take 1 (dropWhile (\<lambda>p. is_default (ap p kw)) (applicable st ps))"
  by (induction ps arbitrary: w) (simp_all add: applicable_def is_default_def Let_def)

lemma run_plugins_all_default:
  "find (\<lambda>p. \<not> is_default (ap p kw)) (applicable st ps) = None \<Longrightarrow>
   run_plugins ap st kw ps w =
     (None, w\<lparr>applied := applied w @ applicable st ps,
              logged := logged w @ map (\<lambda>p. skip_message p st)
                          (filter (\<lambda>p. st \<notin> set (target_protocol_state p)) ps)\<rparr>)"
  by (induction ps arbitrary: w)
     (simp_all add: applicable_def is_default_def Let_def split: if_splits)

lemma acquire_ok:
  "\<forall>c. \<not> connect_raises cs c \<Longrightarrow>
   acquire cs w =
     (Inr (if has_amavisd cs then Some Amavisd else None,
           if has_iredapd cs then Some Iredapd else None),
      w\<lparr>opened := opened w @ [Vmail] @ (if has_amavisd cs then [Amavisd] else [])
                     @ (if has_iredapd cs then [Iredapd] else [])\<rparr>)"
  by (simp add: acquire_def connect_def)

lemma close_connections_applied: "applied (close_connections cs a i w) = applied w"
  by (simp add: close_connections_def close_def split: sum.splits option.splits)

lemma close_connections_logged: "logged (close_connections cs a i w) = logged w"
  by (simp add: close_connections_def close_def split: sum.splits option.splits)

lemma make_sample_kwargs:
  "make_plugin_kwargs sample_session (Some Amavisd) (Some Iredapd) = Inr sample_kwargs"
  by (simp add: make_plugin_kwargs_def sample_session_def sample_kwargs_def dict_get_def)

text \<open>
  C1. With a non-empty plugin list, a session that has its mandatory keys and pools that
  hand out their connections, \<open>handle_data\<close> returns the action of the first plugin, in
  configured order and among those whose protocol states contain the session's state,
  whose action does not start with DUNNO; the plugins that ran are exactly the applicable
  ones up to and including that plugin, so no later plugin runs. When every applicable
  plugin answers DUNNO the result is the table's default action. With an empty (or
  absent) plugin list the result is the default action followed by
  \<open>No enabled plugins\<close>, and nothing was acquired or run.
\<close>

theorem handle_data_short_circuit:
  assumes "ps \<noteq> []"
    and "map_of sd ''protocol_state'' = Some st"
    and "\<forall>c. \<not> connect_raises cs c"
    and "make_plugin_kwargs sd (if has_amavisd cs then Some Amavisd else None)
           (if has_iredapd cs then Some Iredapd else None) = Inr kw"
  shows "fst (handle_data A ap cs sd (Some ps)) =
           Inr (case find (\<lambda>p. \<not> is_default (ap p kw)) (applicable (upper st) ps) of
                  Some p \<Rightarrow> ap p kw
                | None \<Rightarrow> A A_default)
       \<and> applied (snd (handle_data A ap cs sd (Some ps))) =
           takeWhile (\<lambda>p. is_default (ap p kw)) (applicable (upper st) ps)
             @ take 1 (dropWhile (\<lambda>p. is_default (ap p kw)) (applicable (upper st) ps))
       \<and> handle_data A ap cs sd (Some []) =
           (Inr (A A_default @ '' No enabled plugins''), init_world)
       \<and> handle_data A ap cs sd None =
           (Inr (A A_default @ '' No enabled plugins''), init_world)"
proof -
  let ?a = "if has_amavisd cs then Some Amavisd else None"
  let ?i = "if has_iredapd cs then Some Iredapd else None"
  let ?w = "init_world\<lparr>opened := opened init_world @ [Vmail]
              @ (if has_amavisd cs then [Amavisd] else [])
              @ (if has_iredapd cs then [Iredapd] else [])\<rparr>"
  let ?r = "run_plugins ap (upper st) kw ps ?w"
  let ?nd = "\<lambda>p. \<not> is_default (ap p kw)"
  have acq: "acquire cs init_world = (Inr (?a, ?i), ?w)"
    using assms(3) by (rule acquire_ok)
  have hd: "handle_data A ap cs sd (Some ps) =
      (case ?r of
         (Some action, w') \<Rightarrow> (Inr action, w')
       | (None, w') \<Rightarrow> (Inr (A A_default), close_connections cs ?a ?i w'))"
    using assms(1,2,4) by (simp add: handle_data_def acq)
  have res: "fst ?r = map_option (\<lambda>p. ap p kw) (find ?nd (applicable (upper st) ps))"
    by (rule run_plugins_result)
  have app: "applied (snd ?r) =
      applied ?w @ takeWhile (\<lambda>p. is_default (ap p kw)) (applicable (upper st) ps)
        @ take 1 (dropWhile (\<lambda>p. is_default (ap p kw)) (applicable (upper st) ps))"
    by (rule run_plugins_applied)
  have verdict: "fst (handle_data A ap cs sd (Some ps)) =
      Inr (case find ?nd (applicable (upper st) ps) of
             Some p \<Rightarrow> ap p kw
           | None \<Rightarrow> A A_default)"
    using res by (cases ?r) (auto simp: hd split: option.splits)
  have ran: "applied (snd (handle_data A ap cs sd (Some ps))) =
      takeWhile (\<lambda>p. is_default (ap p kw)) (applicable (upper st) ps)
        @ take 1 (dropWhile (\<lambda>p. is_default (ap p kw)) (applicable (upper st) ps))"
    using app
    by (cases ?r) (auto simp: hd close_connections_applied init_world_def split: option.splits)
  show ?thesis
    using verdict ran by (simp add: handle_data_def)
qed

theorem handle_data_short_circuit_witness:
  "[plugin_eom, plugin_pass, plugin_reject, plugin_late] \<noteq> []
   \<and> map_of sample_session ''protocol_state'' = Some ''rcpt''
   \<and> (\<forall>c. \<not> connect_raises sample_conns c)
   \<and> fst (handle_data sample_actions sample_apply_plugin sample_conns sample_session
             (Some [plugin_eom, plugin_pass, plugin_reject, plugin_late]))
       = Inr ''REJECT reject refuses bob@example.com''
   \<and> applied (snd (handle_data sample_actions sample_apply_plugin sample_conns sample_session
             (Some [plugin_eom, plugin_pass, plugin_reject, plugin_late])))
       = [plugin_pass, plugin_reject]"
proof -
  have st: "map_of sample_session ''protocol_state'' = Some ''rcpt''"
    by (simp add: sample_session_def)
  have cn: "\<forall>c. \<not> connect_raises sample_conns c"
    by (simp add: sample_conns_def)
  have kw: "make_plugin_kwargs sample_session
              (if has_amavisd sample_conns then Some Amavisd else None)
              (if has_iredapd sample_conns then Some Iredapd else None) = Inr sample_kwargs"
    by (simp add: make_sample_kwargs sample_conns_def)
  have ap: "applicable ''RCPT'' [plugin_eom, plugin_pass, plugin_reject, plugin_late]
              = [plugin_pass, plugin_reject, plugin_late]"
    by (simp add: applicable_def target_protocol_state_def plugin_eom_def plugin_pass_def
          plugin_reject_def plugin_late_def)
  have d: "is_default (sample_apply_plugin plugin_pass sample_kwargs)"
          "\<not> is_default ''REJECT reject refuses bob@example.com''"
    by (simp_all add: is_default_def startswith_def sample_apply_plugin_def plugin_pass_def)
  have r: "sample_apply_plugin plugin_reject sample_kwargs = ''REJECT reject refuses bob@example.com''"
    by (simp add: sample_apply_plugin_def plugin_reject_def sample_kwargs_def)
  show ?thesis
    using handle_data_short_circuit [of "[plugin_eom, plugin_pass, plugin_reject, plugin_late]"
        sample_session "''rcpt''" sample_conns sample_kwargs sample_actions sample_apply_plugin,
        OF _ st cn kw]
    by (simp add: upper_rcpt ap d r st cn)
qed

lemmas modeler_eval =
  handle_data_def acquire_def connect_def close_connections_def close_def init_world_def
  make_plugin_kwargs_def dict_get_def target_protocol_state_def skip_message_def
  startswith_def upper_rcpt sample_session_def sample_conns_def failing_close_conns_def
  sample_actions_def sample_apply_plugin_def plugin_eom_def plugin_pass_def
  plugin_reject_def plugin_late_def

text \<open>
  C2, as stated, fails. A single plugin that rejects makes \<open>handle_data\<close> return from
  inside the loop with all three handles still checked out. And when a \<open>close()\<close>
  raises after a loop that ran to its end, the default action is returned, the handles
  stay checked out and no line is written to the logger.
\<close>

theorem handle_data_release_counterexample:
  "fst (handle_data sample_actions sample_apply_plugin sample_conns sample_session
          (Some [plugin_reject]))
     = Inr ''REJECT reject refuses bob@example.com''
   \<and> opened (snd (handle_data sample_actions sample_apply_plugin sample_conns sample_session
          (Some [plugin_reject])))
     = [Vmail, Amavisd, Iredapd]
   \<and> fst (handle_data sample_actions sample_apply_plugin failing_close_conns sample_session
          (Some [plugin_pass]))
     = Inr ''DUNNO''
   \<and> opened (snd (handle_data sample_actions sample_apply_plugin failing_close_conns
          sample_session (Some [plugin_pass])))
     = [Vmail, Amavisd, Iredapd]
   \<and> logged (snd (handle_data sample_actions sample_apply_plugin failing_close_conns
          sample_session (Some [plugin_pass])))
     = []"
  by (simp add: modeler_eval)

text \<open>
  C2, amended. When \<open>handle_data\<close> has acquired its connections and no applicable plugin
  returns an action other than DUNNO, it returns the default action whatever the
  \<open>close()\<close> calls do: a failure to release is swallowed, it is not escalated and nothing
  is logged for it (the log holds the skipped plugins only). The vmail handle is released
  unless its \<open>close()\<close> raises, and every acquired handle is released when the iredapd
  pool is configured and no \<open>close()\<close> raises. Nothing is said about a return from
  inside the loop.
\<close>

theorem handle_data_release_after_loop:
  assumes "ps \<noteq> []"
    and "map_of sd ''protocol_state'' = Some st"
    and "\<forall>c. \<not> connect_raises cs c"
    and "make_plugin_kwargs sd (if has_amavisd cs then Some Amavisd else None)
           (if has_iredapd cs then Some Iredapd else None) = Inr kw"
    and "find (\<lambda>p. \<not> is_default (ap p kw)) (applicable (upper st) ps) = None"
  shows "fst (handle_data A ap cs sd (Some ps)) = Inr (A A_default)
       \<and> logged (snd (handle_data A ap cs sd (Some ps))) =
           map (\<lambda>p. skip_message p (upper st))
             (filter (\<lambda>p. upper st \<notin> set (target_protocol_state p)) ps)
       \<and> (\<not> close_raises cs Vmail \<longrightarrow>
            Vmail \<notin> set (opened (snd (handle_data A ap cs sd (Some ps)))))
       \<and> (has_iredapd cs \<and> (\<forall>c. \<not> close_raises cs c) \<longrightarrow>
            opened (snd (handle_data A ap cs sd (Some ps))) = [])"
proof -
  let ?a = "if has_amavisd cs then Some Amavisd else None"
  let ?i = "if has_iredapd cs then Some Iredapd else None"
  let ?w = "init_world\<lparr>opened := opened init_world @ [Vmail]
              @ (if has_amavisd cs then [Amavisd] else [])
              @ (if has_iredapd cs then [Iredapd] else [])\<rparr>"
  let ?w' = "?w\<lparr>applied := applied ?w @ applicable (upper st) ps,
               logged := logged ?w @ map (\<lambda>p. skip_message p (upper st))
                           (filter (\<lambda>p. upper st \<notin> set (target_protocol_state p)) ps)\<rparr>"
  have acq: "acquire cs init_world = (Inr (?a, ?i), ?w)"
    using assms(3) by (rule acquire_ok)
  have run: "run_plugins ap (upper st) kw ps ?w = (None, ?w')"
    using assms(5) by (rule run_plugins_all_default)
  have "handle_data A ap cs sd (Some ps) =
      (case run_plugins ap (upper st) kw ps ?w of
         (Some action, w') \<Rightarrow> (Inr action, w')
       | (None, w') \<Rightarrow> (Inr (A A_default), close_connections cs ?a ?i w'))"
    using assms(1,2,4) by (simp add: handle_data_def acq)
  then have hd: "handle_data A ap cs sd (Some ps) =
      (Inr (A A_default), close_connections cs ?a ?i ?w')"
    unfolding run by simp
  have vmail: "\<not> close_raises cs Vmail \<Longrightarrow>
      Vmail \<notin> set (opened (close_connections cs ?a ?i ?w'))"
    by (simp add: close_connections_def close_def init_world_def)
  have everything: "has_iredapd cs \<Longrightarrow> \<forall>c. \<not> close_raises cs c \<Longrightarrow>
      opened (close_connections cs ?a ?i ?w') = []"
    by (simp add: close_connections_def close_def init_world_def)
  show ?thesis
    using vmail everything by (simp add: hd close_connections_logged init_world_def)
qed

theorem handle_data_release_after_loop_witness:
  "[plugin_eom, plugin_pass] \<noteq> []
   \<and> map_of sample_session ''protocol_state'' = Some ''rcpt''
   \<and> (\<forall>c. \<not> connect_raises sample_conns c)
   \<and> find (\<lambda>p. \<not> is_default (sample_apply_plugin p sample_kwargs))
        (applicable (upper ''rcpt'') [plugin_eom, plugin_pass]) = None
   \<and> has_iredapd sample_conns \<and> (\<forall>c. \<not> close_raises sample_conns c)
   \<and> fst (handle_data sample_actions sample_apply_plugin sample_conns sample_session
            (Some [plugin_eom, plugin_pass])) = Inr ''DUNNO''
   \<and> logged (snd (handle_data sample_actions sample_apply_plugin sample_conns sample_session
            (Some [plugin_eom, plugin_pass])))
       = [''Skip plugin: eom_only (protocol_state != RCPT)'']
   \<and> opened (snd (handle_data sample_actions sample_apply_plugin sample_conns sample_session
            (Some [plugin_eom, plugin_pass]))) = []"
proof -
  have st: "map_of sample_session ''protocol_state'' = Some ''rcpt''"
    by (simp add: sample_session_def)
  have cn: "\<forall>c. \<not> connect_raises sample_conns c"
    by (simp add: sample_conns_def)
  have kw: "make_plugin_kwargs sample_session
              (if has_amavisd sample_conns then Some Amavisd else None)
              (if has_iredapd sample_conns then Some Iredapd else None) = Inr sample_kwargs"
    by (simp add: make_sample_kwargs sample_conns_def)
  have nd: "find (\<lambda>p. \<not> is_default (sample_apply_plugin p sample_kwargs))
        (applicable (upper ''rcpt'') [plugin_eom, plugin_pass]) = None"
    by (simp add: upper_rcpt applicable_def target_protocol_state_def is_default_def
          startswith_def sample_apply_plugin_def plugin_eom_def plugin_pass_def)
  have cl: "has_iredapd sample_conns \<and> (\<forall>c. \<not> close_raises sample_conns c)"
    by (simp add: sample_conns_def)
  have sk: "map (\<lambda>p. skip_message p ''RCPT'')
              (filter (\<lambda>p. ''RCPT'' \<notin> set (target_protocol_state p)) [plugin_eom, plugin_pass])
            = [''Skip plugin: eom_only (protocol_state != RCPT)'']"
    by (simp add: target_protocol_state_def skip_message_def plugin_eom_def plugin_pass_def)
  show ?thesis
    using handle_data_release_after_loop [of "[plugin_eom, plugin_pass]" sample_session "''rcpt''"
        sample_conns sample_kwargs sample_apply_plugin sample_actions, OF _ st cn kw nd] cl nd
    unfolding upper_rcpt sk
    by (simp add: st cn sample_actions_def)
qed

section \<open>The mailing-list access policy: properties\<close>

lemma half_step:
  "i < n \<Longrightarrow> (n - i + 1) div 2 = Suc ((n - 1 - Suc i + 1) div (2::nat))"
  by presburger

text \<open>
  The loop of lines 98 to 100 adds the dotted suffixes that start at the first
  \<open>(n - i + 1) div 2\<close> labels only: the iterator's position grows while the list
  shrinks, and they meet half way.
\<close>

lemma possible_loop_half:
  "possible_loop i parts acc =
     acc @ map (\<lambda>k. ''.'' @ join ''.'' (drop k parts)) [0..<(length parts - i + 1) div 2]"
proof (induction i parts acc rule: possible_loop.induct)
  case (1 i parts acc)
  show ?case
  proof (cases "i < length parts")
    case False
    then show ?thesis by (simp add: possible_loop.simps)
  next
    case True
    define m where "m = (length (tl parts) - Suc i + 1) div 2"
    have m: "(length parts - i + 1) div 2 = Suc m"
      using half_step [OF True] by (simp add: m_def)
    have "possible_loop i parts acc =
            possible_loop (Suc i) (tl parts) (acc @ [''.'' @ join ''.'' parts])"
      using True by (subst possible_loop.simps) simp
    also have "\<dots> = (acc @ [''.'' @ join ''.'' parts])
                 @ map (\<lambda>k. ''.'' @ join ''.'' (drop k (tl parts))) [0..<m]"
      using "1.IH" [OF True] by (simp add: m_def)
    also have "\<dots> = acc @ map (\<lambda>k. ''.'' @ join ''.'' (drop k parts)) [0..<Suc m]"
      by (simp add: upt_rec [of 0 "Suc m"] map_Suc_upt [symmetric] drop_Suc del: upt_Suc)
    finally show ?thesis by (simp only: m)
  qed
qed

lemma possible_sender_domains_half:
  "possible_sender_domains sd =
     sd # map (\<lambda>k. ''.'' @ join ''.'' (drop k (split_on CHR ''.'' sd)))
            [0..<(length (split_on CHR ''.'' sd) + 1) div 2]"
  by (simp add: possible_sender_domains_def possible_loop_half)

lemma set_collect_values:
  "set (collect_values conv attrs qr) =
     (\<Union>(dn, entry) \<in> set qr. \<Union>k \<in> set attrs. set (dict_get (conv entry) k []))"
  by (induction conv attrs qr rule: collect_values.induct) auto

text \<open>
  C10: the sender domain \<open>a.b.example.com\<close> is tested as \<open>.a.b.example.com\<close> and
  \<open>.b.example.com\<close> only, and \<open>example.com\<close> as \<open>.example.com\<close> only. A list that
  explicitly allows \<open>.example.com\<close> therefore does not let \<open>bob@a.b.example.com\<close> pass:
  with the members-only policy and no member entry the verdict is the
  not-authorized reject.
\<close>

theorem possible_sender_domains_stop_half_way:
  "possible_sender_domains ''a.b.example.com'' =
     [''a.b.example.com'', ''.a.b.example.com'', ''.b.example.com'']
   \<and> possible_sender_domains ''example.com'' = [''example.com'', ''.example.com'']
   \<and> fst (access_policy_restriction sample_libs sample_directory
         (list_request [] ''bob@a.b.example.com'' ''a.b.example.com''
            (list_entry [''active''] [''membersonly''] [''.example.com''])))
       = Inr (A_reject_not_authorized, [])"
  by code_simp

text \<open>
  C9: for an active mailing list whose \<open>accessPolicy\<close> attribute is present with no
  value, reading the policy raises IndexError and the resolver produces no verdict
  (the request reaches that read whenever the authenticated identity is not the
  recipient itself).
\<close>

theorem empty_access_policy_raises:
  assumes "sasl_username kw \<noteq> recipient_without_ext kw"
    and "recipient_ldif kw = Some entry"
    and "map_of entry ''objectClass'' = Some object_class"
    and "''mailList'' \<in> set object_class"
    and "map_of entry ''accountStatus'' = Some [''active'']"
    and "map_of entry ''accessPolicy'' = Some []"
  shows "access_policy_restriction L D kw = (Inl IndexError, [])"
proof -
  have "entry \<noteq> []" using assms(3) by auto
  moreover have "read_policy L entry = Inl IndexError"
    using assms(6) by (simp add: read_policy_def dict_get_def)
  ultimately show ?thesis
    using assms(1-5) by (simp add: access_policy_restriction_def dict_get_def quiet_def)
qed

theorem empty_access_policy_raises_witness:
  "sasl_username (list_request ''bob@example.com'' ''bob@example.com'' ''example.com''
       (list_entry [''active''] [] []))
     \<noteq> recipient_without_ext (list_request ''bob@example.com'' ''bob@example.com''
         ''example.com'' (list_entry [''active''] [] []))
   \<and> map_of (list_entry [''active''] [] []) ''objectClass'' = Some [''mailList'']
   \<and> map_of (list_entry [''active''] [] []) ''accountStatus'' = Some [''active'']
   \<and> map_of (list_entry [''active''] [] []) ''accessPolicy'' = Some []
   \<and> access_policy_restriction sample_libs sample_directory
        (list_request ''bob@example.com'' ''bob@example.com'' ''example.com''
           (list_entry [''active''] [] []))
       = (Inl IndexError, [])"
  using empty_access_policy_raises [of
      "list_request ''bob@example.com'' ''bob@example.com'' ''example.com''
         (list_entry [''active''] [] [])"
      "list_entry [''active''] [] []" "[''mailList'']" sample_libs sample_directory]
  by (simp add: list_request_def list_entry_def)

text \<open>
  C5: when the list's policy is members-and-moderators-only and the sender was not
  accepted by the earlier checks, a combined query that raises (any exception) is caught:
  the verdict is DEFAULT with the diagnostic text, and that text is logged. When the
  query succeeds, the verdict is DEFAULT iff the sender is one of the \<open>mail\<close>,
  \<open>shadowAddress\<close> or \<open>listAllowedUser\<close> values of the returned entries, and the
  not-authorized reject otherwise.
\<close>

theorem members_and_moderators_fail_open:
  assumes "sasl_username kw \<noteq> recipient_without_ext kw"
    and "recipient_ldif kw = Some entry"
    and "map_of entry ''objectClass'' = Some object_class"
    and "''mailList'' \<in> set object_class"
    and "dict_get entry ''accountStatus'' [] = [''active'']"
    and "read_policy L entry = Inr (MAILLIST_POLICY_MEMBERSANDMODERATORSONLY L)"
    and "MAILLIST_POLICY_MEMBERSANDMODERATORSONLY L \<notin>
           set [MAILLIST_POLICY_PUBLIC L, ''allowedonly'', MAILLIST_POLICY_DOMAIN L,
                MAILLIST_POLICY_SUBDOMAIN L, MAILLIST_POLICY_MEMBERSONLY L,
                MAILLIST_POLICY_MODERATORS L]"
    and "get_primary_and_alias_domains D (recipient_domain kw) = Inr valid_rcpt_domains"
    and "bypass_listed_sender entry (sender_without_ext kw) (sender_domain kw) = None"
  shows "access_policy_restriction L D kw =
     (case search_s D (''domainName='' @ recipient_domain kw @ '','' @ ldap_basedn D) 2
             (members_and_moderators_filter (recipient_without_ext kw))
             [''mail'', ''shadowAddress'', ''listAllowedUser''] of
        Inl e \<Rightarrow>
          (Inr (A_default, '' ('' @ query_error_message L e @ '')''), [query_error_message L e])
      | Inr qr \<Rightarrow>
          (Inr (if sender_without_ext kw \<in>
                     (\<Union>(dn, found) \<in> set qr.
                        \<Union>k \<in> {''mail'', ''shadowAddress'', ''listAllowedUser''}.
                          set (dict_get (bytes2str D found) k []))
                then (A_default, [])
                else (A_reject_not_authorized, [])), []))"
proof -
  let ?p = "MAILLIST_POLICY_MEMBERSANDMODERATORSONLY L"
  have "entry \<noteq> []" using assms(3) by auto
  then have "access_policy_restriction L D kw =
      verify_policy L D kw valid_rcpt_domains (dict_get entry ''listAllowedUser'' []) ?p"
    using assms by (simp add: access_policy_restriction_def)
  also have "\<dots> = members_and_moderators_policy L D
      (''domainName='' @ recipient_domain kw @ '','' @ ldap_basedn D)
      (recipient_without_ext kw) (sender_without_ext kw)"
    using assms(7) by (simp add: verify_policy_def)
  finally show ?thesis
    by (simp add: members_and_moderators_policy_def set_collect_values split: sum.splits)
qed

theorem members_and_moderators_fail_open_witness:
  "search_s failing_directory ''domainName=example.com,o=domains'' 2
        (members_and_moderators_filter ''list@example.com'')
        [''mail'', ''shadowAddress'', ''listAllowedUser'']
     = Inl (Raised ''SERVER_DOWN()'')
   \<and> access_policy_restriction sample_libs failing_directory
       (list_request [] ''mallory@elsewhere.org'' ''elsewhere.org''
          (list_entry [''active''] [''membersandmoderatorsonly''] []))
     = (Inr (A_default,
          '' (Error while querying allowed senders of mailing list (access policy: membersandmoderatorsonly): SERVER_DOWN())''),
        [''Error while querying allowed senders of mailing list (access policy: membersandmoderatorsonly): SERVER_DOWN()''])
   \<and> access_policy_restriction sample_libs sample_directory
       (list_request [] ''mallory@elsewhere.org'' ''elsewhere.org''
          (list_entry [''active''] [''membersandmoderatorsonly''] []))
     = (Inr (A_reject_not_authorized, []), [])
   \<and> access_policy_restriction sample_libs sample_directory
       (list_request [] ''al@example.com'' ''example.com''
          (list_entry [''active''] [''membersandmoderatorsonly''] []))
     = (Inr (A_default, []), [])"
proof -
  let ?entry = "list_entry [''active''] [''membersandmoderatorsonly''] []"
  let ?mallory = "list_request [] ''mallory@elsewhere.org'' ''elsewhere.org'' ?entry"
  let ?al = "list_request [] ''al@example.com'' ''example.com'' ?entry"
  let ?found = "[(''mail=alice@example.com,ou=Users,domainName=example.com,o=domains'',
                  [(''mail'', [''alice@example.com'']), (''shadowAddress'', [''al@example.com''])]),
                 (''mail=list@example.com,ou=Groups,domainName=example.com,o=domains'',
                  [(''mail'', [''list@example.com'']),
                   (''listAllowedUser'', [''carol@partner.org''])])]"
  have h1: "sasl_username (list_request [] sndr sd ?entry)
              \<noteq> recipient_without_ext (list_request [] sndr sd ?entry)" for sndr sd
    by (simp add: list_request_def)
  have h2: "recipient_ldif (list_request [] sndr sd ?entry) = Some ?entry" for sndr sd
    by (simp add: list_request_def)
  have h3: "map_of ?entry ''objectClass'' = Some [''mailList'']"
    by (simp add: list_entry_def)
  have h4: "''mailList'' \<in> set [''mailList'']"
    by simp
  have h5: "dict_get ?entry ''accountStatus'' [] = [''active'']"
    by (simp add: list_entry_def dict_get_def)
  have h6: "read_policy sample_libs ?entry
              = Inr (MAILLIST_POLICY_MEMBERSANDMODERATORSONLY sample_libs)"
    by code_simp
  have h7: "MAILLIST_POLICY_MEMBERSANDMODERATORSONLY sample_libs \<notin>
           set [MAILLIST_POLICY_PUBLIC sample_libs, ''allowedonly'',
                MAILLIST_POLICY_DOMAIN sample_libs, MAILLIST_POLICY_SUBDOMAIN sample_libs,
                MAILLIST_POLICY_MEMBERSONLY sample_libs, MAILLIST_POLICY_MODERATORS sample_libs]"
    by (simp add: sample_libs_def)
  have h8: "get_primary_and_alias_domains failing_directory (recipient_domain ?mallory)
              = Inr [''example.com'']"
           "get_primary_and_alias_domains sample_directory (recipient_domain ?mallory)
              = Inr [''example.com'']"
           "get_primary_and_alias_domains sample_directory (recipient_domain ?al)
              = Inr [''example.com'']"
    by (simp_all add: failing_directory_def sample_directory_def list_request_def)
  have h9: "bypass_listed_sender ?entry (sender_without_ext ?mallory) (sender_domain ?mallory)
              = None"
           "bypass_listed_sender ?entry (sender_without_ext ?al) (sender_domain ?al) = None"
    by code_simp+
  have down: "search_s failing_directory ''domainName=example.com,o=domains'' 2
        (members_and_moderators_filter ''list@example.com'')
        [''mail'', ''shadowAddress'', ''listAllowedUser'']
     = Inl (Raised ''SERVER_DOWN()'')"
    by (simp add: failing_directory_def)
  have up: "search_s sample_directory ''domainName=example.com,o=domains'' 2
        (members_and_moderators_filter ''list@example.com'')
        [''mail'', ''shadowAddress'', ''listAllowedUser'']
     = Inr ?found"
    by (simp add: sample_directory_def sample_search_def)
  have b: "ldap_basedn failing_directory = ''o=domains''"
          "ldap_basedn sample_directory = ''o=domains''"
          "bytes2str sample_directory = (\<lambda>found. found)"
    by (simp_all add: failing_directory_def sample_directory_def)
  have k: "recipient_domain (list_request [] sndr sd ?entry) = ''example.com''"
          "recipient_without_ext (list_request [] sndr sd ?entry) = ''list@example.com''"
          "sender_without_ext (list_request [] sndr sd ?entry) = sndr" for sndr sd
    by (simp_all add: list_request_def)
  have failed: "access_policy_restriction sample_libs failing_directory ?mallory
     = (Inr (A_default, '' ('' @ query_error_message sample_libs (Raised ''SERVER_DOWN()'')
                          @ '')''),
        [query_error_message sample_libs (Raised ''SERVER_DOWN()'')])"
    using members_and_moderators_fail_open [OF h1 h2 h3 h4 h5 h6 h7 h8(1) h9(1)]
    by (simp add: b k down)
  have stranger: "access_policy_restriction sample_libs sample_directory ?mallory
     = (Inr (A_reject_not_authorized, []), [])"
    using members_and_moderators_fail_open [OF h1 h2 h3 h4 h5 h6 h7 h8(2) h9(1)]
    by (simp add: b k up dict_get_def)
  have member: "access_policy_restriction sample_libs sample_directory ?al
     = (Inr (A_default, []), [])"
    using members_and_moderators_fail_open [OF h1 h2 h3 h4 h5 h6 h7 h8(3) h9(2)]
    by (simp add: b k up dict_get_def)
  show ?thesis
    using down failed stranger member
    by (simp add: query_error_message_def repr_exn_def sample_libs_def)
qed

lemma bypass_listed_sender_kind:
  "bypass_listed_sender entry sndr sd = Some (k, txt) \<Longrightarrow> k = A_default"
  by (auto simp: bypass_listed_sender_def Let_def split: if_splits)

lemma domain_policy_kind:
  "domain_policy L sd valid policy = (k, txt) \<Longrightarrow> k = A_default \<or> k = A_reject_not_authorized"
  by (auto simp: domain_policy_def split: if_splits)

lemma members_policy_kind:
  "members_policy D dn rcpt sndr = Inr (k, txt) \<Longrightarrow>
   k = A_default \<or> k = A_reject_not_authorized"
  by (auto simp: members_policy_def split: sum.splits if_splits)

lemma members_and_moderators_policy_kind:
  "fst (members_and_moderators_policy L D dn rcpt sndr) = Inr (k, txt) \<Longrightarrow>
   k = A_default \<or> k = A_reject_not_authorized"
  by (auto simp: members_and_moderators_policy_def split: sum.splits if_splits)

lemma members_and_moderators_policy_returns:
  "\<exists>v. fst (members_and_moderators_policy L D dn rcpt sndr) = Inr v"
  by (simp add: members_and_moderators_policy_def split: sum.splits)

lemma moderators_policy_kind:
  "moderators_policy D sasl sndr sd rd dn explicit = Inr (k, txt) \<Longrightarrow>
   k = A_default \<or> k = A_reject_not_authorized"
  by (auto simp: moderators_policy_def split: prod.splits sum.splits if_splits)

lemma verify_policy_kind:
  assumes "fst (verify_policy L D kw valid explicit policy) = Inr (k, txt)"
  shows "k = A_default \<or> k = A_reject_not_authorized"
proof -
  let ?dn = "''domainName='' @ recipient_domain kw @ '','' @ ldap_basedn D"
  show ?thesis
  proof (cases "policy \<in> set [MAILLIST_POLICY_DOMAIN L, MAILLIST_POLICY_SUBDOMAIN L]")
    case True
    then have "verify_policy L D kw valid explicit policy =
                 quiet (Inr (domain_policy L (sender_domain kw) valid policy))"
      by (simp add: verify_policy_def)
    with assms show ?thesis by (auto simp: quiet_def dest: domain_policy_kind)
  next
    case nd: False
    show ?thesis
    proof (cases "policy = MAILLIST_POLICY_MEMBERSONLY L")
      case True
      with nd have "verify_policy L D kw valid explicit policy =
          quiet (members_policy D ?dn (recipient_without_ext kw) (sender_without_ext kw))"
        by (simp add: verify_policy_def)
      with assms show ?thesis by (auto simp: quiet_def dest: members_policy_kind)
    next
      case nm: False
      show ?thesis
      proof (cases "policy = MAILLIST_POLICY_MEMBERSANDMODERATORSONLY L")
        case True
        with nd nm have "verify_policy L D kw valid explicit policy =
            members_and_moderators_policy L D ?dn (recipient_without_ext kw)
              (sender_without_ext kw)"
          by (simp add: verify_policy_def)
        with assms show ?thesis by (auto dest: members_and_moderators_policy_kind)
      next
        case nmm: False
        show ?thesis
        proof (cases "policy = MAILLIST_POLICY_MODERATORS L")
          case True
          with nd nm nmm have "verify_policy L D kw valid explicit policy =
              quiet (moderators_policy D (sasl_username kw) (sender_without_ext kw)
                       (sender_domain kw) (recipient_domain kw) ?dn explicit)"
            by (simp add: verify_policy_def)
          with assms show ?thesis by (auto simp: quiet_def dest: moderators_policy_kind)
        next
          case False
          with nd nm nmm have "verify_policy L D kw valid explicit policy =
              quiet (Inr (A_default,
                       '' (Unknown access policy: '' @ policy @ '', no restriction)''))"
            by (simp add: verify_policy_def)
          with assms show ?thesis by (simp add: quiet_def)
        qed
      qed
    qed
  qed
qed

lemma verify_policy_returns:
  assumes "\<forall>b s f a. \<exists>qr. search_s D b s f a = Inr qr"
  shows "\<exists>v. fst (verify_policy L D kw valid explicit policy) = Inr v"
proof -
  have search: "\<exists>qr. search_s D b s f a = Inr qr" for b s f a
    using assms by blast
  have mem: "\<exists>v. members_policy D dn rcpt sndr = Inr v" for dn rcpt sndr
    using search [of dn 2 "members_filter rcpt" "[''mail'', ''shadowAddress'']"]
    by (auto simp: members_policy_def)
  have users: "\<exists>v. expand_users D dn users allowed = Inr v" for dn users allowed
    using search [of "''ou=Users,'' @ dn" 1 "users_filter users" "[''mail'', ''shadowAddress'']"]
    by (auto simp: expand_users_def)
  have domains: "\<exists>v. expand_domains D domains allowed = Inr v" for domains allowed
    using search [of "ldap_basedn D" 1 "domains_filter domains"
                    "[''domainName'', ''domainAliasName'']"]
    by (auto simp: expand_domains_def)
  have mod: "\<exists>v. moderators_policy D sasl sndr sd rd dn ex = Inr v" for sasl sndr sd rd dn ex
  proof (cases "sasl = []")
    case True
    then show ?thesis by (simp add: moderators_policy_def)
  next
    case False
    obtain us ds al where sep: "separate (is_email D) rd 0
        (filter (\<lambda>s. \<not> startswith s ''*@'') ex) [] [] = (us, ds, al)"
      by (cases "separate (is_email D) rd 0 (filter (\<lambda>s. \<not> startswith s ''*@'') ex) [] []")
         auto
    obtain w where w: "expand_users D dn us al = Inr w" using users by blast
    obtain x where x: "expand_domains D ds w = Inr x" using domains by blast
    show ?thesis using False by (simp add: moderators_policy_def sep w x)
  qed
  show ?thesis
    using mem mod members_and_moderators_policy_returns
    by (auto simp: verify_policy_def Let_def quiet_def)
qed

text \<open>
  C4, as stated, fails: a mailing list that is not active gets the plain \<open>reject\<close>
  action of line 47, not the not-authorized one, and a directory search that raises in
  the members-only branch leaves the function as an exception.
\<close>

theorem access_policy_verdict_counterexample:
  "fst (access_policy_restriction sample_libs sample_directory
          (list_request [] ''bob@example.com'' ''example.com''
             (list_entry [''disabled''] [''public''] [])))
     = Inr (A_reject, [])
   \<and> fst (access_policy_restriction sample_libs failing_directory
          (list_request [] ''bob@elsewhere.org'' ''elsewhere.org''
             (list_entry [''active''] [''membersonly''] [])))
     = Inl (Raised ''SERVER_DOWN()'')"
  by code_simp

text \<open>
  C4, amended. Whenever \<open>restriction\<close> returns, the verdict is DEFAULT, the
  not-authorized reject or the plain reject, and the plain reject is returned only for
  a mailing-list entry whose \<open>accountStatus\<close> is not exactly \<open>['active']\<close>. It does
  return a verdict whenever a non-empty recipient entry has an \<open>objectClass\<close> attribute
  and no empty \<open>accessPolicy\<close> value list, and neither the alias-domain lookup nor
  \<open>search_s\<close> raises.
\<close>

theorem access_policy_verdict_kinds:
  "(\<forall>k txt. fst (access_policy_restriction L D kw) = Inr (k, txt) \<longrightarrow>
      (k = A_default \<or> k = A_reject \<or> k = A_reject_not_authorized)
      \<and> (k = A_reject \<longrightarrow>
           (\<exists>entry. recipient_ldif kw = Some entry
              \<and> (\<exists>oc. map_of entry ''objectClass'' = Some oc \<and> ''mailList'' \<in> set oc)
              \<and> dict_get entry ''accountStatus'' [] \<noteq> [''active''])))
   \<and> ((\<forall>entry. recipient_ldif kw = Some entry \<and> entry \<noteq> [] \<longrightarrow>
          map_of entry ''objectClass'' \<noteq> None \<and> map_of entry ''accessPolicy'' \<noteq> Some [])
       \<and> (\<exists>valid. get_primary_and_alias_domains D (recipient_domain kw) = Inr valid)
       \<and> (\<forall>b s f a. \<exists>qr. search_s D b s f a = Inr qr)
      \<longrightarrow> (\<exists>v. fst (access_policy_restriction L D kw) = Inr v))"
proof (intro conjI allI impI)
  fix k appended
  assume r: "fst (access_policy_restriction L D kw) = Inr (k, appended)"
  have kinds: "(k = A_default \<or> k = A_reject_not_authorized)
        \<or> (k = A_reject \<and> (\<exists>entry. recipient_ldif kw = Some entry
              \<and> (\<exists>oc. map_of entry ''objectClass'' = Some oc \<and> ''mailList'' \<in> set oc)
              \<and> dict_get entry ''accountStatus'' [] \<noteq> [''active'']))"
    using r
    by (auto simp: access_policy_restriction_def quiet_def Let_def
          split: if_splits option.splits sum.splits
          dest: verify_policy_kind bypass_listed_sender_kind)
  then show "k = A_default \<or> k = A_reject \<or> k = A_reject_not_authorized"
    by auto
  show "\<exists>entry. recipient_ldif kw = Some entry
          \<and> (\<exists>oc. map_of entry ''objectClass'' = Some oc \<and> ''mailList'' \<in> set oc)
              \<and> dict_get entry ''accountStatus'' [] \<noteq> [''active'']" if "k = A_reject"
    using kinds that by auto
next
  assume h: "(\<forall>entry. recipient_ldif kw = Some entry \<and> entry \<noteq> [] \<longrightarrow>
          map_of entry ''objectClass'' \<noteq> None \<and> map_of entry ''accessPolicy'' \<noteq> Some [])
       \<and> (\<exists>valid. get_primary_and_alias_domains D (recipient_domain kw) = Inr valid)
       \<and> (\<forall>b s f a. \<exists>qr. search_s D b s f a = Inr qr)"
  then obtain valid where valid:
      "get_primary_and_alias_domains D (recipient_domain kw) = Inr valid"
    by blast
  have nonempty: "read_policy L entry \<noteq> Inl e" if "map_of entry ''accessPolicy'' \<noteq> Some []"
    for entry e
    using that by (auto simp: read_policy_def dict_get_def split: option.splits list.splits)
  have v: "\<exists>v. fst (verify_policy L D kw valid explicit policy) = Inr v" for explicit policy
    using h verify_policy_returns by blast
  show "\<exists>v. fst (access_policy_restriction L D kw) = Inr v"
  proof (cases "recipient_ldif kw")
    case None
    then show ?thesis by (simp add: access_policy_restriction_def quiet_def)
  next
    case (Some entry)
    show ?thesis
    proof (cases "entry = []")
      case True
      with Some show ?thesis by (simp add: access_policy_restriction_def quiet_def)
    next
      case False
      with h Some obtain oc where oc: "map_of entry ''objectClass'' = Some oc"
        and ap: "map_of entry ''accessPolicy'' \<noteq> Some []"
        by blast
      obtain p where p: "read_policy L entry = Inr p"
        using nonempty [OF ap] by (cases "read_policy L entry") auto
      show ?thesis
        using Some False oc p valid v
        by (auto simp: access_policy_restriction_def quiet_def Let_def split: option.splits)
    qed
  qed
qed

theorem access_policy_verdict_kinds_witness:
  "fst (access_policy_restriction sample_libs sample_directory
          (list_request [] ''bob@example.com'' ''example.com''
             (list_entry [''disabled''] [''membersonly''] [])))
     = Inr (A_reject, [])
   \<and> (\<exists>entry. recipient_ldif (list_request [] ''bob@example.com'' ''example.com''
                    (list_entry [''disabled''] [''membersonly''] [])) = Some entry
          \<and> (\<exists>oc. map_of entry ''objectClass'' = Some oc \<and> ''mailList'' \<in> set oc)
              \<and> dict_get entry ''accountStatus'' [] \<noteq> [''active''])
   \<and> (\<exists>valid. get_primary_and_alias_domains sample_directory
                   (recipient_domain (list_request [] ''bob@example.com'' ''example.com''
                      (list_entry [''disabled''] [''membersonly''] []))) = Inr valid)
   \<and> (\<forall>b s f a. \<exists>qr. search_s sample_directory b s f a = Inr qr)
   \<and> (\<exists>v. fst (access_policy_restriction sample_libs sample_directory
                 (list_request [] ''bob@example.com'' ''example.com''
                    (list_entry [''disabled''] [''membersonly''] []))) = Inr v)"
proof -
  let ?kw = "list_request [] ''bob@example.com'' ''example.com''
               (list_entry [''disabled''] [''membersonly''] [])"
  have verdict: "fst (access_policy_restriction sample_libs sample_directory ?kw)
                   = Inr (A_reject, [])"
    by code_simp
  have entry: "\<forall>entry. recipient_ldif ?kw = Some entry \<and> entry \<noteq> [] \<longrightarrow>
      map_of entry ''objectClass'' \<noteq> None \<and> map_of entry ''accessPolicy'' \<noteq> Some []"
    by (simp add: list_request_def list_entry_def)
  have lookup: "\<exists>valid. get_primary_and_alias_domains sample_directory (recipient_domain ?kw)
                  = Inr valid"
    by (simp add: sample_directory_def)
  have search: "\<forall>b s f a. \<exists>qr. search_s sample_directory b s f a = Inr qr"
    by (simp add: sample_directory_def sample_search_def)
  note kinds = access_policy_verdict_kinds [of sample_libs sample_directory ?kw]
  from kinds verdict have disabled: "\<exists>entry. recipient_ldif ?kw = Some entry
      \<and> (\<exists>oc. map_of entry ''objectClass'' = Some oc \<and> ''mailList'' \<in> set oc)
              \<and> dict_get entry ''accountStatus'' [] \<noteq> [''active'']"
    by blast
  from kinds entry lookup search
  have returns: "\<exists>v. fst (access_policy_restriction sample_libs sample_directory ?kw) = Inr v"
    by blast
  show ?thesis
    using verdict disabled lookup search returns by blast
qed

text \<open>
  What the scan of lines 207 to 221 guarantees, whatever entries it visits: \<open>_users\<close>
  holds e-mail entries of the recipient domain only, \<open>_domains\<close> holds entries that
  are not e-mail addresses, without their leading dots, nothing is added to the allowed
  list, and e-mail entries of other domains stay in it.
\<close>

lemma separate_step:
  assumes "A \<subseteq> U' \<union> {s \<in> R. P s}" and "R \<subseteq> S" and "U' \<subseteq> U \<union> {s \<in> S. P s}"
  shows "A \<subseteq> U \<union> {s \<in> S. P s}"
  using assms by blast

lemma separate_step_image:
  assumes "A \<subseteq> U' \<union> f ` {s \<in> R. P s}" and "R \<subseteq> S" and "U' \<subseteq> U \<union> f ` {s \<in> S. P s}"
  shows "A \<subseteq> U \<union> f ` {s \<in> S. P s}"
  using assms by blast

lemma separate_step_kept:
  assumes "{s \<in> R. P s} \<subseteq> A" and "S - {x} \<subseteq> R" and "\<not> P x"
  shows "{s \<in> S. P s} \<subseteq> A"
  using assms by blast

lemma separate_sound:
  assumes "separate email rd i allowed users domains = (us, ds, al)"
  shows "set us \<subseteq> set users \<union> {s \<in> set allowed. email s \<and> endswith s (''@'' @ rd)}
       \<and> set ds \<subseteq> set domains \<union> lstrip_dots ` {s \<in> set allowed. \<not> email s}
       \<and> set al \<subseteq> set allowed
       \<and> {s \<in> set allowed. email s \<and> \<not> endswith s (''@'' @ rd)} \<subseteq> set al"
  using assms
proof (induction email rd i allowed users domains rule: separate.induct)
  case (1 email rd i allowed users domains)
  show ?case
  proof (cases "i < length allowed")
    case False
    with "1.prems" show ?thesis by (simp add: separate.simps)
  next
    case True
    let ?x = "allowed ! i"
    let ?R = "remove1 ?x allowed"
    have x: "?x \<in> set allowed" using True by simp
    have strip: "(if startswith ?x ''.'' then lstrip_dots ?x else ?x) = lstrip_dots ?x"
      by (cases ?x) (auto simp: startswith_def lstrip_dots_def)
    have sub: "set ?R \<subseteq> set allowed"
      by (rule set_remove1_subset)
    have keep: "set allowed - {?x} \<subseteq> set ?R"
    proof
      fix s
      assume "s \<in> set allowed - {?x}"
      then have "s \<in> set allowed" and "s \<noteq> ?x" by auto
      then show "s \<in> set ?R" by simp
    qed
    consider (local) "email ?x" "endswith ?x (''@'' @ rd)"
      | (other) "email ?x" "\<not> endswith ?x (''@'' @ rd)"
      | (domain) "\<not> email ?x"
      by blast
    then show ?thesis
    proof cases
      case local
      then have "separate email rd (Suc i) ?R (users @ [?x]) domains = (us, ds, al)"
        using "1.prems" True by (subst (asm) separate.simps) simp
      from "1.IH"(1) [OF True local this]
      have a: "set us \<subseteq> set (users @ [?x]) \<union> {s \<in> set ?R. email s \<and> endswith s (''@'' @ rd)}"
        and b: "set ds \<subseteq> set domains \<union> lstrip_dots ` {s \<in> set ?R. \<not> email s}"
        and c: "set al \<subseteq> set ?R"
        and d: "{s \<in> set ?R. email s \<and> \<not> endswith s (''@'' @ rd)} \<subseteq> set al"
        by blast+
      have u: "set (users @ [?x]) \<subseteq> set users \<union> {s \<in> set allowed. email s \<and> endswith s (''@'' @ rd)}"
        using x local by auto
      have g1: "set us \<subseteq> set users \<union> {s \<in> set allowed. email s \<and> endswith s (''@'' @ rd)}"
        by (rule separate_step [OF a sub u])
      have g2: "set ds \<subseteq> set domains \<union> lstrip_dots ` {s \<in> set allowed. \<not> email s}"
        by (rule separate_step_image [OF b sub]) blast
      have g3: "set al \<subseteq> set allowed" using c sub by blast
      have g4: "{s \<in> set allowed. email s \<and> \<not> endswith s (''@'' @ rd)} \<subseteq> set al"
        by (rule separate_step_kept [OF d keep]) (use local in simp)
      show ?thesis using g1 g2 g3 g4 by blast
    next
      case other
      then have "separate email rd (Suc i) allowed users domains = (us, ds, al)"
        using "1.prems" True by (subst (asm) separate.simps) simp
      from "1.IH"(2) [OF True other this] show ?thesis .
    next
      case domain
      then have "separate email rd (Suc i) ?R users
                   (domains @ [if startswith ?x ''.'' then lstrip_dots ?x else ?x]) = (us, ds, al)"
        using "1.prems" True by (subst (asm) separate.simps) simp
      from "1.IH"(3) [OF True domain this]
      have a: "set us \<subseteq> set users \<union> {s \<in> set ?R. email s \<and> endswith s (''@'' @ rd)}"
        and b: "set ds \<subseteq> set (domains @ [lstrip_dots ?x]) \<union> lstrip_dots ` {s \<in> set ?R. \<not> email s}"
        and c: "set al \<subseteq> set ?R"
        and d: "{s \<in> set ?R. email s \<and> \<not> endswith s (''@'' @ rd)} \<subseteq> set al"
        unfolding strip by blast+
      have u: "set (domains @ [lstrip_dots ?x]) \<subseteq> set domains \<union> lstrip_dots ` {s \<in> set allowed. \<not> email s}"
        using x domain by auto
      have g1: "set us \<subseteq> set users \<union> {s \<in> set allowed. email s \<and> endswith s (''@'' @ rd)}"
        by (rule separate_step [OF a sub]) blast
      have g2: "set ds \<subseteq> set domains \<union> lstrip_dots ` {s \<in> set allowed. \<not> email s}"
        by (rule separate_step_image [OF b sub u])
      have g3: "set al \<subseteq> set allowed" using c sub by blast
      have g4: "{s \<in> set allowed. email s \<and> \<not> endswith s (''@'' @ rd)} \<subseteq> set al"
        by (rule separate_step_kept [OF d keep]) (use domain in simp)
      show ?thesis using g1 g2 g3 g4 by blast
    qed
  qed
qed







text \<open>
  The scan skips the entry that follows a removed one: from \<open>['a.com', 'b.com']\<close> only
  \<open>a.com\<close> reaches \<open>_domains\<close>.
\<close>

lemma separate_skips_after_removal:
  "separate (is_email sample_directory) ''example.com'' 0 [''a.com'', ''b.com''] [] []
     = ([], [''a.com''], [''b.com''])"
  by code_simp





section \<open>The sender/login mismatch check: properties\<close>

text \<open>
  C7: without an authenticated identity (and with a sender that is empty or has an
  \<open>@\<close>), a trusted client address gives DEFAULT before any other check. If the client is
  not trusted, forged-sender checking is on, neither the sender nor its domain nor
  \<open>name@*\<close> is in the forged-sender allow-list, the sender domain is the recipient domain
  or is reported as a local domain, and the SPF check is off, the verdict is the
  forged-sender reject.
\<close>

theorem unauthenticated_forged_sender:
  assumes "sasl_username kw = []"
    and "sender_without_ext kw = [] \<or> CHR ''@'' \<in> set (sender_without_ext kw)"
  shows "(is_trusted_client C (client_address kw) \<longrightarrow>
            login_mismatch_restriction S C kw = (Inr (A_default, []), []))
       \<and> (\<not> is_trusted_client C (client_address kw)
            \<and> CHECK_FORGED_SENDER S
            \<and> sender_without_ext kw \<notin> set (ALLOWED_FORGED_SENDERS S)
            \<and> after_at (sender_without_ext kw) \<notin> set (ALLOWED_FORGED_SENDERS S)
            \<and> (before_at (sender_without_ext kw) @ ''@*'') \<notin> set (ALLOWED_FORGED_SENDERS S)
            \<and> (after_at (sender_without_ext kw) = recipient_domain kw
                 \<or> is_local_domain C (after_at (sender_without_ext kw)) = Inr True)
            \<and> \<not> CHECK_SPF_IF_LOGIN_MISMATCH S
          \<longrightarrow> login_mismatch_restriction S C kw = (Inr (A_reject_forged_sender, []), []))"
proof -
  have parts: "(if sender_without_ext kw \<noteq> [] then before_at (sender_without_ext kw) else [])
                 = before_at (sender_without_ext kw)"
              "(if sender_without_ext kw \<noteq> [] then after_at (sender_without_ext kw) else [])
                 = after_at (sender_without_ext kw)"
    by (simp_all add: before_at_def after_at_def)
  have r: "login_mismatch_restriction S C kw =
      (unauthenticated_sender S C (sender_without_ext kw) (before_at (sender_without_ext kw))
         (after_at (sender_without_ext kw)) (recipient_domain kw) (client_address kw), [])"
    using assms by (auto simp: login_mismatch_restriction_def Let_def parts)
  show ?thesis
    unfolding r by (auto simp: unauthenticated_sender_def)
qed

theorem unauthenticated_forged_sender_witness:
  "login_mismatch_restriction sample_settings (sample_collaborators unreachable_api)
     (mismatch_request [] [] ''bob@example.com'' ''other.org'' ''127.0.0.1'')
     = (Inr (A_default, []), [])
   \<and> login_mismatch_restriction sample_settings (sample_collaborators unreachable_api)
       (mismatch_request [] [] ''bob@example.com'' ''other.org'' ''192.0.2.7'')
     = (Inr (A_reject_forged_sender, []), [])
   \<and> is_local_domain (sample_collaborators unreachable_api) ''example.com'' = Inr True
   \<and> \<not> is_trusted_client (sample_collaborators unreachable_api) ''192.0.2.7''"
proof -
  let ?C = "sample_collaborators unreachable_api"
  let ?near = "mismatch_request [] [] ''bob@example.com'' ''other.org'' ''127.0.0.1''"
  let ?far = "mismatch_request [] [] ''bob@example.com'' ''other.org'' ''192.0.2.7''"
  have sender_parts: "after_at ''bob@example.com'' = ''example.com''"
                     "before_at ''bob@example.com'' = ''bob''"
    by (simp_all add: after_at_def before_at_def)
  have near: "sasl_username ?near = []"
             "sender_without_ext ?near = [] \<or> CHR ''@'' \<in> set (sender_without_ext ?near)"
             "is_trusted_client ?C (client_address ?near)"
    by (simp_all add: mismatch_request_def sample_collaborators_def)
  have far: "sasl_username ?far = []"
            "sender_without_ext ?far = [] \<or> CHR ''@'' \<in> set (sender_without_ext ?far)"
    by (simp_all add: mismatch_request_def)
  have forged: "\<not> is_trusted_client ?C (client_address ?far)
            \<and> CHECK_FORGED_SENDER sample_settings
            \<and> sender_without_ext ?far \<notin> set (ALLOWED_FORGED_SENDERS sample_settings)
            \<and> after_at (sender_without_ext ?far) \<notin> set (ALLOWED_FORGED_SENDERS sample_settings)
            \<and> (before_at (sender_without_ext ?far) @ ''@*'')
                 \<notin> set (ALLOWED_FORGED_SENDERS sample_settings)
            \<and> (after_at (sender_without_ext ?far) = recipient_domain ?far
                 \<or> is_local_domain ?C (after_at (sender_without_ext ?far)) = Inr True)
            \<and> \<not> CHECK_SPF_IF_LOGIN_MISMATCH sample_settings"
    by (simp add: mismatch_request_def sample_collaborators_def sample_settings_def sender_parts)
  have local: "is_local_domain ?C ''example.com'' = Inr True"
              "\<not> is_trusted_client ?C ''192.0.2.7''"
    by (simp_all add: sample_collaborators_def)
  from unauthenticated_forged_sender [of ?near ?C sample_settings, OF near(1,2)] near(3)
  have trusted: "login_mismatch_restriction sample_settings ?C ?near = (Inr (A_default, []), [])"
    by blast
  from unauthenticated_forged_sender [of ?far ?C sample_settings, OF far] forged
  have rejected: "login_mismatch_restriction sample_settings ?C ?far
                    = (Inr (A_reject_forged_sender, []), [])"
    by blast
  show ?thesis
    using trusted rejected local by blast
qed

lemma mismatched_sender_reached:
  assumes "sasl_username kw \<noteq> []"
    and "CHR ''@'' \<in> set (sender_without_ext kw)"
    and "sender_without_ext kw \<noteq> sasl_username kw"
  shows "login_mismatch_restriction S C kw =
     mismatched_sender S C (sasl_username kw) (before_at (sasl_username kw))
       (sasl_username_domain kw) (sender_without_ext kw) (before_at (sender_without_ext kw))
       (after_at (sender_without_ext kw))"
proof -
  have "sender_without_ext kw \<noteq> []" using assms(2) by auto
  then show ?thesis
    using assms by (simp add: login_mismatch_restriction_def Let_def)
qed

lemma explicitly_allowed_sender_None:
  "explicitly_allowed_sender allowed sasl sasl_domain sd = None \<longleftrightarrow>
     sasl \<notin> set allowed \<and> sasl_domain \<notin> set allowed
     \<and> \<not> (((''@'' @ sasl_domain) \<in> set allowed \<or> ''@.'' \<in> set allowed) \<and> sasl_domain = sd)"
  by (auto simp: explicitly_allowed_sender_def)

text \<open>
  C6: for an authenticated identity and a sender address (with its \<open>@\<close>) that differs
  from it. With no allow-list, strict-alias mode off and list-member mode off the verdict
  is the mismatch reject at once. An allow-list entry equal to the identity or to its
  domain gives DEFAULT whatever the sender address is. An entry \<open>@domain\<close> of the
  identity's domain, or \<open>@.\<close>, gives DEFAULT when the sender domain is the identity's
  domain. In every other case with some bypass setting active the allow-list does not
  decide: the verdict is the one of the strict-alias and list-member checks of the
  backend, followed by the list manager's membership check and the final reject; in
  particular, with the LDAP backend a directory entry found by the alias or membership
  query still gives DEFAULT.
\<close>

theorem login_mismatch_allow_list:
  assumes "sasl_username kw \<noteq> []"
    and "CHR ''@'' \<in> set (sender_without_ext kw)"
    and "sender_without_ext kw \<noteq> sasl_username kw"
  shows "(ALLOWED_LOGIN_MISMATCH_SENDERS S = [] \<and> \<not> ALLOWED_LOGIN_MISMATCH_STRICTLY S
            \<and> \<not> ALLOWED_LOGIN_MISMATCH_LIST_MEMBER S \<longrightarrow>
          login_mismatch_restriction S C kw = (Inr action_reject, []))
       \<and> (sasl_username kw \<in> set (ALLOWED_LOGIN_MISMATCH_SENDERS S)
            \<or> sasl_username_domain kw \<in> set (ALLOWED_LOGIN_MISMATCH_SENDERS S) \<longrightarrow>
          login_mismatch_restriction S C kw = (Inr (A_default, []), []))
       \<and> (((''@'' @ sasl_username_domain kw) \<in> set (ALLOWED_LOGIN_MISMATCH_SENDERS S)
             \<or> ''@.'' \<in> set (ALLOWED_LOGIN_MISMATCH_SENDERS S))
            \<and> sasl_username_domain kw = after_at (sender_without_ext kw) \<longrightarrow>
          login_mismatch_restriction S C kw = (Inr (A_default, []), []))
       \<and> (sasl_username kw \<notin> set (ALLOWED_LOGIN_MISMATCH_SENDERS S)
            \<and> sasl_username_domain kw \<notin> set (ALLOWED_LOGIN_MISMATCH_SENDERS S)
            \<and> \<not> (((''@'' @ sasl_username_domain kw) \<in> set (ALLOWED_LOGIN_MISMATCH_SENDERS S)
                    \<or> ''@.'' \<in> set (ALLOWED_LOGIN_MISMATCH_SENDERS S))
                   \<and> sasl_username_domain kw = after_at (sender_without_ext kw))
            \<and> (ALLOWED_LOGIN_MISMATCH_SENDERS S \<noteq> [] \<or> ALLOWED_LOGIN_MISMATCH_STRICTLY S
                 \<or> ALLOWED_LOGIN_MISMATCH_LIST_MEMBER S) \<longrightarrow>
          login_mismatch_restriction S C kw =
            (case backend_checks S C (sasl_username kw) (before_at (sasl_username kw))
                    (sasl_username_domain kw) (sender_without_ext kw)
                    (before_at (sender_without_ext kw)) (after_at (sender_without_ext kw)) of
               Inl e \<Rightarrow> (Inl e, [])
             | Inr (Return v) \<Rightarrow> (Inr v, [])
             | Inr (Continue (check_mlmmj_ml, real_sender)) \<Rightarrow>
                 if check_mlmmj_ml
                 then (case mlmmjadmin_check S C real_sender (sasl_username kw) of
                         (Some v, errors) \<Rightarrow> (Inr v, errors)
                       | (None, errors) \<Rightarrow> (Inr action_reject, errors))
                 else (Inr action_reject, []))
          \<and> (backend S = ''ldap''
               \<and> (ALLOWED_LOGIN_MISMATCH_STRICTLY S \<or> ALLOWED_LOGIN_MISMATCH_LIST_MEMBER S)
               \<and> (\<exists>dn. get_account_ldif C (sasl_username kw)
                          (ldap_query_filter (ALLOWED_LOGIN_MISMATCH_STRICTLY S)
                             (ALLOWED_LOGIN_MISMATCH_LIST_MEMBER S) (sasl_username kw)
                             (sender_without_ext kw)) = Inr dn \<and> dn_found dn) \<longrightarrow>
              login_mismatch_restriction S C kw = (Inr (A_default, []), [])))"
proof -
  let ?allowed = "ALLOWED_LOGIN_MISMATCH_SENDERS S"
  let ?sasl = "sasl_username kw"
  let ?dom = "sasl_username_domain kw"
  let ?sd = "after_at (sender_without_ext kw)"
  let ?later = "case backend_checks S C ?sasl (before_at ?sasl) ?dom (sender_without_ext kw)
                    (before_at (sender_without_ext kw)) ?sd of
               Inl e \<Rightarrow> (Inl e, [])
             | Inr (Return v) \<Rightarrow> (Inr v, [])
             | Inr (Continue (check_mlmmj_ml, real_sender)) \<Rightarrow>
                 if check_mlmmj_ml
                 then (case mlmmjadmin_check S C real_sender ?sasl of
                         (Some v, errors) \<Rightarrow> (Inr v, errors)
                       | (None, errors) \<Rightarrow> (Inr action_reject, errors))
                 else (Inr action_reject, [])"
  note r = mismatched_sender_reached [OF assms, of S C]
  have no_setting: "login_mismatch_restriction S C kw = (Inr action_reject, [])"
    if "?allowed = []" "\<not> ALLOWED_LOGIN_MISMATCH_STRICTLY S"
       "\<not> ALLOWED_LOGIN_MISMATCH_LIST_MEMBER S"
    using that by (simp add: r mismatched_sender_def)
  have identity: "login_mismatch_restriction S C kw = (Inr (A_default, []), [])"
    if "?sasl \<in> set ?allowed \<or> ?dom \<in> set ?allowed"
  proof -
    from that have "?allowed \<noteq> []" by auto
    moreover from that this
    have "explicitly_allowed_sender ?allowed ?sasl ?dom ?sd = Some (A_default, [])"
      by (auto simp: explicitly_allowed_sender_def)
    ultimately show ?thesis by (simp add: r mismatched_sender_def)
  qed
  have same_domain: "login_mismatch_restriction S C kw = (Inr (A_default, []), [])"
    if "(''@'' @ ?dom) \<in> set ?allowed \<or> ''@.'' \<in> set ?allowed" "?dom = ?sd"
  proof -
    from that have "?allowed \<noteq> []" by auto
    moreover from that this
    have "explicitly_allowed_sender ?allowed ?sasl ?dom ?sd = Some (A_default, [])"
      by (auto simp: explicitly_allowed_sender_def)
    ultimately show ?thesis by (simp add: r mismatched_sender_def)
  qed
  have undecided: "login_mismatch_restriction S C kw = ?later"
    if "?sasl \<notin> set ?allowed" "?dom \<notin> set ?allowed"
       "\<not> (((''@'' @ ?dom) \<in> set ?allowed \<or> ''@.'' \<in> set ?allowed) \<and> ?dom = ?sd)"
       "?allowed \<noteq> [] \<or> ALLOWED_LOGIN_MISMATCH_STRICTLY S
          \<or> ALLOWED_LOGIN_MISMATCH_LIST_MEMBER S"
  proof -
    have "explicitly_allowed_sender ?allowed ?sasl ?dom ?sd = None"
      using that(1-3) by (simp only: explicitly_allowed_sender_None) simp
    then show ?thesis using that(4) by (simp add: r mismatched_sender_def)
  qed
  have found: "?later = (Inr (A_default, []), [])"
    if "backend S = ''ldap''"
       "ALLOWED_LOGIN_MISMATCH_STRICTLY S \<or> ALLOWED_LOGIN_MISMATCH_LIST_MEMBER S"
       "\<exists>dn. get_account_ldif C ?sasl
                (ldap_query_filter (ALLOWED_LOGIN_MISMATCH_STRICTLY S)
                   (ALLOWED_LOGIN_MISMATCH_LIST_MEMBER S) ?sasl (sender_without_ext kw)) = Inr dn
              \<and> dn_found dn"
  proof -
    from that(3) have "ldap_checks S C ?sasl (sender_without_ext kw) = Inr (Return (A_default, []))"
      by (auto simp: ldap_checks_def)
    with that(1,2)
    have "backend_checks S C ?sasl (before_at ?sasl) ?dom (sender_without_ext kw)
            (before_at (sender_without_ext kw)) ?sd = Inr (Return (A_default, []))"
      by (simp add: backend_checks_def)
    then show ?thesis by simp
  qed
  show ?thesis
    using no_setting identity same_domain undecided found by (intro conjI impI) auto
qed

theorem login_mismatch_allow_list_witness:
  "login_mismatch_restriction (sample_settings\<lparr>ALLOWED_LOGIN_MISMATCH_STRICTLY := False\<rparr>)
     (sample_collaborators unreachable_api)
     (mismatch_request ''alice@example.com'' ''example.com'' ''bob@example.com'' ''other.org''
        ''192.0.2.7'')
     = (Inr (A_reject_sender_login_mismatch, []), [])
   \<and> login_mismatch_restriction
       (sample_settings\<lparr>ALLOWED_LOGIN_MISMATCH_STRICTLY := False,
                         ALLOWED_LOGIN_MISMATCH_SENDERS := [''example.com'']\<rparr>)
       (sample_collaborators unreachable_api)
       (mismatch_request ''alice@example.com'' ''example.com'' ''bob@example.com'' ''other.org''
          ''192.0.2.7'')
     = (Inr (A_default, []), [])
   \<and> login_mismatch_restriction
       (sample_settings\<lparr>ALLOWED_LOGIN_MISMATCH_SENDERS := [''carol@example.com'']\<rparr>)
       (sample_collaborators unreachable_api)
       (mismatch_request ''alice@example.com'' ''example.com'' ''al@example.com'' ''other.org''
          ''192.0.2.7'')
     = (Inr (A_default, []), [])"
proof -
  let ?C = "sample_collaborators unreachable_api"
  let ?bob = "mismatch_request ''alice@example.com'' ''example.com'' ''bob@example.com''
                ''other.org'' ''192.0.2.7''"
  let ?al = "mismatch_request ''alice@example.com'' ''example.com'' ''al@example.com''
               ''other.org'' ''192.0.2.7''"
  let ?none = "sample_settings\<lparr>ALLOWED_LOGIN_MISMATCH_STRICTLY := False\<rparr>"
  let ?domain = "sample_settings\<lparr>ALLOWED_LOGIN_MISMATCH_STRICTLY := False,
                                 ALLOWED_LOGIN_MISMATCH_SENDERS := [''example.com'']\<rparr>"
  let ?other = "sample_settings\<lparr>ALLOWED_LOGIN_MISMATCH_SENDERS := [''carol@example.com'']\<rparr>"
  have bob: "sasl_username ?bob \<noteq> []" "CHR ''@'' \<in> set (sender_without_ext ?bob)"
            "sender_without_ext ?bob \<noteq> sasl_username ?bob"
    by (simp_all add: mismatch_request_def)
  have al: "sasl_username ?al \<noteq> []" "CHR ''@'' \<in> set (sender_without_ext ?al)"
           "sender_without_ext ?al \<noteq> sasl_username ?al"
    by (simp_all add: mismatch_request_def)
  have off: "ALLOWED_LOGIN_MISMATCH_SENDERS ?none = [] \<and> \<not> ALLOWED_LOGIN_MISMATCH_STRICTLY ?none
               \<and> \<not> ALLOWED_LOGIN_MISMATCH_LIST_MEMBER ?none"
    by (simp add: sample_settings_def)
  have listed: "sasl_username ?bob \<in> set (ALLOWED_LOGIN_MISMATCH_SENDERS ?domain)
                  \<or> sasl_username_domain ?bob \<in> set (ALLOWED_LOGIN_MISMATCH_SENDERS ?domain)"
    by (simp add: sample_settings_def mismatch_request_def)
  have unlisted: "sasl_username ?al \<notin> set (ALLOWED_LOGIN_MISMATCH_SENDERS ?other)
       \<and> sasl_username_domain ?al \<notin> set (ALLOWED_LOGIN_MISMATCH_SENDERS ?other)
       \<and> \<not> (((''@'' @ sasl_username_domain ?al) \<in> set (ALLOWED_LOGIN_MISMATCH_SENDERS ?other)
               \<or> ''@.'' \<in> set (ALLOWED_LOGIN_MISMATCH_SENDERS ?other))
              \<and> sasl_username_domain ?al = after_at (sender_without_ext ?al))
       \<and> (ALLOWED_LOGIN_MISMATCH_SENDERS ?other \<noteq> [] \<or> ALLOWED_LOGIN_MISMATCH_STRICTLY ?other
            \<or> ALLOWED_LOGIN_MISMATCH_LIST_MEMBER ?other)"
    by (simp add: sample_settings_def mismatch_request_def)
  have directory: "backend ?other = ''ldap''
       \<and> (ALLOWED_LOGIN_MISMATCH_STRICTLY ?other \<or> ALLOWED_LOGIN_MISMATCH_LIST_MEMBER ?other)
       \<and> (\<exists>dn. get_account_ldif ?C (sasl_username ?al)
                  (ldap_query_filter (ALLOWED_LOGIN_MISMATCH_STRICTLY ?other)
                     (ALLOWED_LOGIN_MISMATCH_LIST_MEMBER ?other) (sasl_username ?al)
                     (sender_without_ext ?al)) = Inr dn \<and> dn_found dn)"
    by (simp add: sample_settings_def mismatch_request_def sample_collaborators_def
          sample_account_ldif_def ldap_query_filter_def dn_found_def)
  from login_mismatch_allow_list [OF bob, of ?none ?C] off
  have rejected: "login_mismatch_restriction ?none ?C ?bob = (Inr action_reject, [])"
    by blast
  from login_mismatch_allow_list [OF bob, of ?domain ?C] listed
  have by_domain: "login_mismatch_restriction ?domain ?C ?bob = (Inr (A_default, []), [])"
    by blast
  from login_mismatch_allow_list [OF al, of ?other ?C] unlisted directory
  have by_alias: "login_mismatch_restriction ?other ?C ?al = (Inr (A_default, []), [])"
    by blast
  show ?thesis
    using rejected by_domain by_alias by (simp add: action_reject_def)
qed

text \<open>
  C8: when the checks of the backend end with the sender being an mlmmj mailing list and
  the API token and endpoint are configured, the function returns whatever the HTTP
  request and the decoding of its answer do. An exception of the request, of the JSON
  decoding or of reading \<open>_success\<close> is logged and the verdict is the final mismatch
  reject; an answer whose \<open>_success\<close> is true gives DEFAULT, any other answer the reject.
\<close>

theorem mlmmjadmin_failure_is_no_match:
  assumes "sasl_username kw \<noteq> []"
    and "CHR ''@'' \<in> set (sender_without_ext kw)"
    and "sender_without_ext kw \<noteq> sasl_username kw"
    and "ALLOWED_LOGIN_MISMATCH_SENDERS S \<noteq> [] \<or> ALLOWED_LOGIN_MISMATCH_STRICTLY S
           \<or> ALLOWED_LOGIN_MISMATCH_LIST_MEMBER S"
    and "explicitly_allowed_sender (ALLOWED_LOGIN_MISMATCH_SENDERS S) (sasl_username kw)
           (sasl_username_domain kw) (after_at (sender_without_ext kw)) = None"
    and "backend_checks S C (sasl_username kw) (before_at (sasl_username kw))
           (sasl_username_domain kw) (sender_without_ext kw)
           (before_at (sender_without_ext kw)) (after_at (sender_without_ext kw))
         = Inr (Continue (True, real_sender))"
    and "mlmmjadmin_api_auth_token S \<noteq> []"
    and "mlmmjadmin_api_endpoint S \<noteq> []"
  shows "login_mismatch_restriction S C kw =
           (case requests_get_json C
                   (join ''/'' [mlmmjadmin_api_endpoint S, real_sender, ''has_subscriber'',
                                sasl_username kw])
                   [(MLMMJADMIN_API_AUTH_TOKEN_HEADER_NAME S, mlmmjadmin_api_auth_token S)] of
              Inl e \<Rightarrow> (Inr action_reject, [api_error_message e])
            | Inr answer \<Rightarrow>
                (case json_getitem answer ''_success'' of
                   Inl e \<Rightarrow> (Inr action_reject, [api_error_message e])
                 | Inr success \<Rightarrow>
                     if json_truthy success then (Inr (A_default, []), [])
                     else (Inr action_reject, [])))
       \<and> (\<exists>v. fst (login_mismatch_restriction S C kw) = Inr v)"
proof -
  note r = mismatched_sender_reached [OF assms(1-3), of S C]
  have "login_mismatch_restriction S C kw =
      (case mlmmjadmin_check S C real_sender (sasl_username kw) of
         (Some v, errors) \<Rightarrow> (Inr v, errors)
       | (None, errors) \<Rightarrow> (Inr action_reject, errors))"
    using assms(4-6) by (simp add: r mismatched_sender_def)
  then have verdict: "login_mismatch_restriction S C kw =
           (case requests_get_json C
                   (join ''/'' [mlmmjadmin_api_endpoint S, real_sender, ''has_subscriber'',
                                sasl_username kw])
                   [(MLMMJADMIN_API_AUTH_TOKEN_HEADER_NAME S, mlmmjadmin_api_auth_token S)] of
              Inl e \<Rightarrow> (Inr action_reject, [api_error_message e])
            | Inr answer \<Rightarrow>
                (case json_getitem answer ''_success'' of
                   Inl e \<Rightarrow> (Inr action_reject, [api_error_message e])
                 | Inr success \<Rightarrow>
                     if json_truthy success then (Inr (A_default, []), [])
                     else (Inr action_reject, [])))"
    using assms(7,8) by (simp add: mlmmjadmin_check_def split: sum.splits)
  then have "\<exists>v. fst (login_mismatch_restriction S C kw) = Inr v"
    by (simp split: sum.splits)
  with verdict show ?thesis by blast
qed

theorem mlmmjadmin_failure_is_no_match_witness:
  "login_mismatch_restriction sample_settings (sample_collaborators unreachable_api)
     (mismatch_request ''alice@example.com'' ''example.com'' ''news@example.com'' ''other.org''
        ''192.0.2.7'')
     = (Inr (A_reject_sender_login_mismatch, []),
        [''Error while querying mlmmjadmin api: Connection refused''])
   \<and> login_mismatch_restriction sample_settings
       (sample_collaborators (answering_api (JObj [(''_success'', JBool True)])))
       (mismatch_request ''alice@example.com'' ''example.com'' ''news@example.com'' ''other.org''
          ''192.0.2.7'')
     = (Inr (A_default, []), [])
   \<and> login_mismatch_restriction sample_settings
       (sample_collaborators (answering_api (JArr [])))
       (mismatch_request ''alice@example.com'' ''example.com'' ''news@example.com'' ''other.org''
          ''192.0.2.7'')
     = (Inr (A_reject_sender_login_mismatch, []),
        [''Error while querying mlmmjadmin api: list indices must be integers or slices, not str''])"
proof -
  let ?kw = "mismatch_request ''alice@example.com'' ''example.com'' ''news@example.com''
               ''other.org'' ''192.0.2.7''"
  have kw: "sasl_username ?kw \<noteq> []" "CHR ''@'' \<in> set (sender_without_ext ?kw)"
           "sender_without_ext ?kw \<noteq> sasl_username ?kw"
    by (simp_all add: mismatch_request_def)
  have active: "ALLOWED_LOGIN_MISMATCH_SENDERS sample_settings \<noteq> []
                  \<or> ALLOWED_LOGIN_MISMATCH_STRICTLY sample_settings
                  \<or> ALLOWED_LOGIN_MISMATCH_LIST_MEMBER sample_settings"
    by (simp add: sample_settings_def)
  have unlisted: "explicitly_allowed_sender (ALLOWED_LOGIN_MISMATCH_SENDERS sample_settings)
      (sasl_username ?kw) (sasl_username_domain ?kw) (after_at (sender_without_ext ?kw)) = None"
    by (simp add: explicitly_allowed_sender_def sample_settings_def)
  have is_list: "backend_checks sample_settings (sample_collaborators api) (sasl_username ?kw)
      (before_at (sasl_username ?kw)) (sasl_username_domain ?kw) (sender_without_ext ?kw)
      (before_at (sender_without_ext ?kw)) (after_at (sender_without_ext ?kw))
      = Inr (Continue (True, ''news@example.com''))" for api
    by (simp add: backend_checks_def ldap_checks_def ldap_query_filter_def filter_user_alias_def
          sample_settings_def sample_collaborators_def sample_account_ldif_def
          mismatch_request_def dn_found_def)
  have api: "mlmmjadmin_api_auth_token sample_settings \<noteq> []"
            "mlmmjadmin_api_endpoint sample_settings \<noteq> []"
    by (simp_all add: sample_settings_def)
  note at = mlmmjadmin_failure_is_no_match [OF kw active unlisted is_list api]
  have refused: "login_mismatch_restriction sample_settings (sample_collaborators unreachable_api)
      ?kw = (Inr action_reject, [api_error_message (Raised ''Connection refused'')])"
    using at [of unreachable_api]
    by (simp add: sample_collaborators_def unreachable_api_def)
  have subscribed: "login_mismatch_restriction sample_settings
      (sample_collaborators (answering_api (JObj [(''_success'', JBool True)]))) ?kw
      = (Inr (A_default, []), [])"
    using at [of "answering_api (JObj [(''_success'', JBool True)])"]
    by (simp add: sample_collaborators_def answering_api_def json_getitem_def json_truthy_def)
  have malformed: "login_mismatch_restriction sample_settings
      (sample_collaborators (answering_api (JArr []))) ?kw
      = (Inr action_reject,
         [api_error_message (TypeError ''list indices must be integers or slices, not str'')])"
    using at [of "answering_api (JArr [])"]
    by (simp add: sample_collaborators_def answering_api_def json_getitem_def)
  show ?thesis
    using refused subscribed malformed
    by (simp add: action_reject_def api_error_message_def str_exn_def)
qed

end
